theory Spec2Isabelle
  imports Main "HOL-Library.AList"
begin

section \<open>Values of the host language\<close>

text \<open>
  The bridge of \<^verbatim>\<open>mini-app-bridge.js\<close> runs in a JavaScript engine and tests its
  arguments dynamically (\<^verbatim>\<open>typeof\<close>, truthiness, property reads), so the model
  works on JavaScript values. \<open>jsval\<close> holds the data values a message, a parameter
  object or an identifier can be: the values \<^verbatim>\<open>JSON.parse\<close> yields, and
  \<^verbatim>\<open>undefined\<close>, \<^verbatim>\<open>NaN\<close> and the BigInt values (which \<^verbatim>\<open>JSON.stringify\<close> refuses).
  A number is an integer (every id, counter and
  time stamp of the bridge is one) of a magnitude that a double holds exactly and
  prints in decimal digits; fractions and infinities are not represented.
  An object is the list of its own enumerable properties in insertion order; where a
  list names a key twice, the first binding is the property (\<open>map_of\<close>). Objects are
  trees: an object that contains itself is not represented. Functions are not
  data, so no property of a value is callable: a listener is a reference (\<open>Fn\<close>),
  see \<open>callback\<close> below.
\<close>

datatype jsval =
    JUndefined
  | JNull
  | JBool bool
  | JNum int
  | JNaN
  | JBigInt int
  | JStr string
  | JArr "jsval list"
  | JObj "(string \<times> jsval) list"

text \<open>ToBoolean: what \<^verbatim>\<open>if (v)\<close>, \<^verbatim>\<open>!v\<close>, \<^verbatim>\<open>a || b\<close> and \<^verbatim>\<open>c ? a : b\<close> test.\<close>

fun truthy :: "jsval \<Rightarrow> bool" where
  "truthy JUndefined = False"
| "truthy JNull = False"
| "truthy (JBool b) = b"
| "truthy (JNum n) = (n \<noteq> 0)"
| "truthy JNaN = False"
| "truthy (JBigInt n) = (n \<noteq> 0)"
| "truthy (JStr s) = (s \<noteq> [])"
| "truthy (JArr xs) = True"
| "truthy (JObj kvs) = True"

fun typeof :: "jsval \<Rightarrow> string" where
  "typeof JUndefined = ''undefined''"
| "typeof JNull = ''object''"
| "typeof (JBool b) = ''boolean''"
| "typeof (JNum n) = ''number''"
| "typeof JNaN = ''number''"
| "typeof (JBigInt n) = ''bigint''"
| "typeof (JStr s) = ''string''"
| "typeof (JArr xs) = ''object''"
| "typeof (JObj kvs) = ''object''"

text \<open>Decimal digits of a number, as a template literal or a property key prints it.\<close>

definition digit_char :: "nat \<Rightarrow> char" where
  "digit_char d = ''0123456789'' ! d"

function show_nat :: "nat \<Rightarrow> string" where
  "show_nat n = (if n < 10 then [digit_char n] else show_nat (n div 10) @ [digit_char (n mod 10)])"
  by pat_completeness auto
termination
  by (relation "measure id") auto

declare show_nat.simps [simp del]

definition show_int :: "int \<Rightarrow> string" where
  "show_int i = (if i < 0 then CHR ''-'' # show_nat (nat (- i)) else show_nat (nat i))"

fun join_comma :: "string list \<Rightarrow> string" where
  "join_comma [] = []"
| "join_comma [s] = s"
| "join_comma (s # t # ts) = s @ CHR '','' # join_comma (t # ts)"

text \<open>
  ToString, which is also ToPropertyKey on these values: the key that
  \<^verbatim>\<open>table[v]\<close> reads and the text that \<^verbatim>\<open>`${v}`\<close> prints; \<open>None\<close> is the \<^verbatim>\<open>TypeError\<close>
  it throws. An object prints through the \<^verbatim>\<open>toString\<close> it inherits, unless it has a
  property \<^verbatim>\<open>toString\<close> of its own: that one is not callable, \<^verbatim>\<open>valueOf\<close> yields no
  primitive either, and the conversion throws. An array prints its elements joined
  by commas, \<^verbatim>\<open>null\<close> and \<^verbatim>\<open>undefined\<close> elements as nothing, and throws where an
  element does.
\<close>

fun toStr :: "jsval \<Rightarrow> string option" where
  "toStr JUndefined = Some ''undefined''"
| "toStr JNull = Some ''null''"
| "toStr (JBool b) = Some (if b then ''true'' else ''false'')"
| "toStr (JNum n) = Some (show_int n)"
| "toStr JNaN = Some ''NaN''"
| "toStr (JBigInt n) = Some (show_int n)"
| "toStr (JStr s) = Some s"
| "toStr (JArr xs) =
     map_option join_comma
       (those (map (\<lambda>x. if x = JUndefined \<or> x = JNull then Some [] else toStr x) xs))"
| "toStr (JObj kvs) = (if map_of kvs ''toString'' = None then Some ''[object Object]'' else None)"

text \<open>
  \<^verbatim>\<open>JSON.stringify\<close>; \<open>None\<close> is the \<^verbatim>\<open>TypeError\<close> it throws on a BigInt. The text it
  returns is kept as the JSON value that the text spells: \<^verbatim>\<open>NaN\<close> becomes \<^verbatim>\<open>null\<close>,
  an \<^verbatim>\<open>undefined\<close> element of an array becomes \<^verbatim>\<open>null\<close>, and a property whose value is
  \<^verbatim>\<open>undefined\<close> is left out.
\<close>

fun JSON_stringify :: "jsval \<Rightarrow> jsval option" where
  "JSON_stringify JNaN = Some JNull"
| "JSON_stringify (JBigInt n) = None"
| "JSON_stringify (JArr xs) =
     map_option JArr
       (those (map (\<lambda>x. map_option (\<lambda>y. if y = JUndefined then JNull else y) (JSON_stringify x)) xs))"
| "JSON_stringify (JObj kvs) =
     map_option (\<lambda>ps. JObj (filter (\<lambda>(k, v). v \<noteq> JUndefined) ps))
       (those (map (\<lambda>(k, r). map_option (Pair k) r)
                 (AList.clearjunk (map (\<lambda>(k, v). (k, JSON_stringify v)) kvs))))"
| "JSON_stringify v = Some v"

text \<open>
  \<^verbatim>\<open>res.event\<close>, \<^verbatim>\<open>res.data\<close>, \<^verbatim>\<open>res.id\<close>, \<^verbatim>\<open>res.success\<close>, \<^verbatim>\<open>res.error\<close>: a property
  read on a value that is neither \<^verbatim>\<open>null\<close> nor \<^verbatim>\<open>undefined\<close>, for a name that no
  built-in prototype defines. Only an object can hold such a property.
\<close>

definition getProp :: "jsval \<Rightarrow> string \<Rightarrow> jsval" where
  "getProp v k =
     (case v of
        JObj kvs \<Rightarrow> (case map_of kvs k of Some x \<Rightarrow> x | None \<Rightarrow> JUndefined)
      | _ \<Rightarrow> JUndefined)"

text \<open>
  The own enumerable properties that an object spread \<^verbatim>\<open>{...v}\<close> copies: those of
  an object, and the indices of an array.
\<close>

fun own_props :: "jsval \<Rightarrow> (string \<times> jsval) list" where
  "own_props (JObj kvs) = AList.clearjunk kvs"
| "own_props (JArr xs) = zip (map show_nat [0..<length xs]) xs"
| "own_props v = []"

text \<open>\<^verbatim>\<open>{ ...a, ...b }\<close>: the properties of \<open>a\<close>, each overwritten or followed by those of \<open>b\<close>.\<close>

definition spread :: "(string \<times> jsval) list \<Rightarrow> (string \<times> jsval) list \<Rightarrow> (string \<times> jsval) list" where
  "spread a b = fold (\<lambda>(k, v). AList.update k v) b a"

text \<open>
  What can be thrown, and what a promise can be rejected with: an \<^verbatim>\<open>Error\<close> with
  its message, the engine's \<^verbatim>\<open>TypeError\<close> and \<^verbatim>\<open>SyntaxError\<close> (their messages are
  the engine's own), or any value.
\<close>

datatype exn = ErrorObj string | TypeError | SyntaxError | Value jsval

section \<open>Tables that inherit from Object.prototype\<close>

text \<open>
  \<^verbatim>\<open>paramsStore\<close>, \<^verbatim>\<open>callbackRegistry\<close> and \<^verbatim>\<open>eventListeners\<close> are object literals
  \<^verbatim>\<open>{}\<close>. A read \<^verbatim>\<open>table[key]\<close> on such an object finds the object's own property,
  and otherwise the member of \<^verbatim>\<open>Object.prototype\<close> of that name: a built-in function
  (or, for \<^verbatim>\<open>__proto__\<close>, the prototype itself), which is truthy and has none of the
  properties the bridge reads next. \<^verbatim>\<open>delete\<close>, \<^verbatim>\<open>Object.keys\<close> and the object spread
  work on own properties only. \<open>object_prototype_keys\<close> lists the members that the
  engines define; the page is taken not to add any.
\<close>

definition object_prototype_keys :: "string list" where
  "object_prototype_keys =
     [''constructor'', ''__defineGetter__'', ''__defineSetter__'', ''hasOwnProperty'',
      ''__lookupGetter__'', ''__lookupSetter__'', ''isPrototypeOf'', ''propertyIsEnumerable'',
      ''toString'', ''valueOf'', ''__proto__'', ''toLocaleString'']"

datatype 'a slot = Own 'a | Inherited | Missing

definition lookup :: "(string \<times> 'a) list \<Rightarrow> string \<Rightarrow> 'a slot" where
  "lookup table k =
     (case map_of table k of
        Some v \<Rightarrow> Own v
      | None \<Rightarrow> if k \<in> set object_prototype_keys then Inherited else Missing)"

text \<open>
  Truthiness of \<^verbatim>\<open>callbackRegistry[k]\<close> and \<^verbatim>\<open>eventListeners[k]\<close>: an own entry is an
  object or an array, an inherited member a function or an object.
\<close>

fun present :: "'a slot \<Rightarrow> bool" where
  "present (Own v) = True"
| "present Inherited = True"
| "present Missing = False"

section \<open>The state of the bridge and of its environment\<close>

text \<open>
  A listener is a function of the mini-app: a reference, compared by identity
  (\<^verbatim>\<open>cb !== callback\<close>). \<open>NotFn v\<close> is an argument that is not a function.
\<close>

datatype callback = Fn nat | NotFn jsval

text \<open>
  An entry of \<^verbatim>\<open>callbackRegistry\<close>: \<^verbatim>\<open>{ resolve, reject, timestamp, timeoutId }\<close>.
  \<open>promise\<close> is the promise whose \<^verbatim>\<open>resolve\<close> and \<^verbatim>\<open>reject\<close> the entry holds.
\<close>

record entry =
  promise :: nat
  timestamp :: int
  timeoutId :: nat

datatype settlement = Pending | Fulfilled jsval | Rejected exn

datatype level = LOG | ERROR

datatype logarg = Txt string | Val jsval | Exn exn

type_synonym logline = "level \<times> logarg list"

text \<open>
  The first four fields are the variables of the script's closure. The others are
  the environment the script acts on: the clock \<^verbatim>\<open>Date.now()\<close> reads, the pending
  timeouts of \<^verbatim>\<open>setTimeout\<close> (handle and the request id its callback closes over),
  the promises \<^verbatim>\<open>call\<close> has returned, the payloads \<^verbatim>\<open>postMessage\<close> has accepted,
  the console, and the listener invocations made (listener and argument).
  \<open>issued\<close> is a history variable: every id \<^verbatim>\<open>generateRequestId\<close> has returned.
\<close>

record bridge =
  paramsStore :: "(string \<times> jsval) list"
  callbackRegistry :: "(string \<times> entry) list"
  requestIdCounter :: nat
  eventListeners :: "(string \<times> nat list) list"
  clock :: int
  timers :: "(nat \<times> string) list"
  nextTimeoutId :: nat
  promises :: "settlement list"
  outbox :: "jsval list"
  console :: "logline list"
  delivered :: "(nat \<times> jsval) list"
  issued :: "string list"

text \<open>The constants of the script and its logger.\<close>

definition VERSION :: string where
  "VERSION = ''0.1.0''"

definition DEBUG :: bool where
  "DEBUG = True"

definition logger_log :: "bridge \<Rightarrow> logarg list \<Rightarrow> bridge" where
  "logger_log st args =
     (if DEBUG then st\<lparr>console := console st @ [(LOG, Txt ''[MiniApp]'' # args)]\<rparr> else st)"

definition logger_error :: "bridge \<Rightarrow> logarg list \<Rightarrow> bridge" where
  "logger_error st args = st\<lparr>console := console st @ [(ERROR, Txt ''[MiniApp]'' # args)]\<rparr>"

text \<open>
  The state in which the script leaves the bridge before its last statement: the
  initial assignments of lines 18 to 22, and the two lines it logs on the way
  (lines 15 and 221).
\<close>

definition init :: bridge where
  "init =
     logger_log
       (logger_log
          \<lparr> paramsStore = [], callbackRegistry = [], requestIdCounter = 1, eventListeners = [],
            clock = 0, timers = [], nextTimeoutId = 1, promises = [], outbox = [],
            console = [], delivered = [], issued = [] \<rparr>
          [Txt (''Initializing SuperApp Bridge v'' @ VERSION @ ''...'')])
       [Txt ''SuperApp Bridge is Ready!'']"

text \<open>
  What the engine and the mini-app supply: \<^verbatim>\<open>JSON.parse\<close> (\<open>Inl\<close> is the exception
  it throws), and the body of each listener, which returns (\<open>None\<close>) or throws.
  A listener does not call back into the bridge.
\<close>

record host =
  JSON_parse :: "string \<Rightarrow> exn + jsval"
  listener_body :: "nat \<Rightarrow> jsval \<Rightarrow> exn option"

text \<open>
  \<^verbatim>\<open>window.SuperAppChannel\<close> at the time of a call: absent, or present with a
  \<^verbatim>\<open>postMessage\<close> that accepts the payload or throws. \<open>Raises m\<close> throws an error
  object whose \<^verbatim>\<open>message\<close> prints as \<open>m\<close>; \<open>RaisesValue v\<close> throws the value \<open>v\<close>.
\<close>

datatype channel = Absent | Accepts | Raises string | RaisesValue jsval

text \<open>
  The state a function ends in, and the exception it threw there, if any: a throw
  keeps the effects made before it.
\<close>

type_synonym outcome = "bridge \<times> exn option"

section \<open>The bridge\<close>

definition timeoutDuration :: nat where
  "timeoutDuration = 60000"

text \<open>
  \<^verbatim>\<open>requestIdCounter++\<close> on a double: exact below \<open>2 ^ 53\<close>, and \<open>2 ^ 53 + 1\<close>
  rounds back to \<open>2 ^ 53\<close>.
\<close>

definition increment :: "nat \<Rightarrow> nat" where
  "increment c = (if c < 2 ^ 53 then c + 1 else c)"

definition make_id :: "int \<Rightarrow> nat \<Rightarrow> string" where
  "make_id t c = ''sa_'' @ show_int t @ ''_'' @ show_nat c"

definition generateRequestId :: "bridge \<Rightarrow> string \<times> bridge" where
  "generateRequestId st =
     (let requestId = make_id (clock st) (requestIdCounter st)
      in (requestId, st\<lparr>requestIdCounter := increment (requestIdCounter st),
                         issued := issued st @ [requestId]\<rparr>))"

definition safeParseJSON :: "host \<Rightarrow> bridge \<Rightarrow> jsval \<Rightarrow> jsval \<times> bridge" where
  "safeParseJSON h st str =
     (case str of
        JStr s \<Rightarrow>
          (case JSON_parse h s of
             Inr v \<Rightarrow> (v, st)
           | Inl e \<Rightarrow> (JNull, logger_error st [Txt ''Invalid JSON:'', Val str, Exn e]))
      | _ \<Rightarrow> (str, st))"

subsection \<open>Timers and promises\<close>

definition setTimeout :: "bridge \<Rightarrow> string \<Rightarrow> nat \<Rightarrow> nat \<times> bridge" where
  "setTimeout st requestId delay =
     (nextTimeoutId st,
      st\<lparr>timers := AList.update (nextTimeoutId st) requestId (timers st),
         nextTimeoutId := nextTimeoutId st + 1\<rparr>)"

text \<open>\<^verbatim>\<open>clearTimeout(undefined)\<close>, which an inherited member leads to, does nothing.\<close>

definition clearTimeout :: "bridge \<Rightarrow> nat option \<Rightarrow> bridge" where
  "clearTimeout st handle =
     (case handle of
        None \<Rightarrow> st
      | Some t \<Rightarrow> st\<lparr>timers := AList.delete t (timers st)\<rparr>)"

definition new_promise :: "bridge \<Rightarrow> nat \<times> bridge" where
  "new_promise st = (length (promises st), st\<lparr>promises := promises st @ [Pending]\<rparr>)"

text \<open>\<^verbatim>\<open>resolve\<close> and \<^verbatim>\<open>reject\<close> of a promise: only the first call of either settles it.\<close>

definition settle :: "bridge \<Rightarrow> nat \<Rightarrow> settlement \<Rightarrow> bridge" where
  "settle st p s =
     (if p < length (promises st) \<and> promises st ! p = Pending
      then st\<lparr>promises := (promises st)[p := s]\<rparr> else st)"

subsection \<open>Requests\<close>

text \<open>
  \<^verbatim>\<open>`${e.message}`\<close> in the \<^verbatim>\<open>catch\<close> clause of \<^verbatim>\<open>call\<close>, for what \<^verbatim>\<open>postMessage\<close> threw;
  \<open>None\<close> is a \<^verbatim>\<open>TypeError\<close>: reading \<^verbatim>\<open>message\<close> of \<^verbatim>\<open>null\<close> or \<^verbatim>\<open>undefined\<close> throws,
  and so does printing a message that has no string form.
\<close>

definition thrown_message :: "channel \<Rightarrow> string option" where
  "thrown_message chan =
     (case chan of
        Raises m \<Rightarrow> Some m
      | RaisesValue v \<Rightarrow>
          (if v = JUndefined \<or> v = JNull then None else toStr (getProp v ''message''))
      | _ \<Rightarrow> None)"

text \<open>
  \<^verbatim>\<open>call(className, methodName, params = {})\<close>; the result is the promise returned.
  The body is the executor of the promise: what it throws (from \<^verbatim>\<open>JSON.stringify\<close> at
  line 67, or from inside the \<^verbatim>\<open>catch\<close> clause at line 82) ends it there, and the
  promise constructor rejects the promise with it.
\<close>

definition call :: "bridge \<Rightarrow> jsval \<Rightarrow> jsval \<Rightarrow> jsval \<Rightarrow> channel \<Rightarrow> nat \<times> bridge" where
  "call st className methodName params0 chan =
     (let params = (if params0 = JUndefined then JObj [] else params0);
          (p, st0) = new_promise st
      in if typeof className \<noteq> ''string'' \<or> \<not> truthy className
         then (p, settle st0 p (Rejected (ErrorObj ''Invalid className'')))
         else if typeof methodName \<noteq> ''string'' \<or> \<not> truthy methodName
         then (p, settle st0 p (Rejected (ErrorObj ''Invalid methodName'')))
         else
           let (requestId, st1) = generateRequestId st0;
               (tid, st2) = setTimeout st1 requestId timeoutDuration;
               st3 = st2\<lparr>callbackRegistry :=
                        AList.update requestId
                          \<lparr>promise = p, timestamp = clock st2, timeoutId = tid\<rparr>
                          (callbackRegistry st2)\<rparr>
           in case JSON_stringify (JObj [(''id'', JStr requestId), (''className'', className),
                                         (''method'', methodName), (''params'', params)]) of
                None \<Rightarrow> (p, settle st3 p (Rejected TypeError))
              | Some payload \<Rightarrow>
                  (let st4 = logger_log st3 [Txt ''Sending to Flutter:'', Val payload]
                   in case chan of
                        Accepts \<Rightarrow> (p, st4\<lparr>outbox := outbox st4 @ [payload]\<rparr>)
                      | Absent \<Rightarrow>
                          (let st5 = logger_error st4 [Txt ''SuperAppChannel is NOT available!''];
                               st6 = clearTimeout st5 (Some tid);
                               st7 = settle st6 p
                                       (Rejected (ErrorObj ''SuperAppChannel is not available!''))
                           in (p, st7\<lparr>callbackRegistry :=
                                       AList.delete requestId (callbackRegistry st7)\<rparr>))
                      | _ \<Rightarrow>
                          (let st5 = clearTimeout st4 (Some tid)
                           in case thrown_message chan of
                                None \<Rightarrow> (p, settle st5 p (Rejected TypeError))
                              | Some m \<Rightarrow>
                                  (let st6 = settle st5 p
                                         (Rejected (ErrorObj (''Failed to send message: '' @ m)))
                                   in (p, st6\<lparr>callbackRegistry :=
                                               AList.delete requestId (callbackRegistry st6)\<rparr>)))))"

text \<open>
  \<^verbatim>\<open>callbackRegistry[requestId]\<close> first converts the id to a property key, which can
  throw. An inherited member has no \<^verbatim>\<open>timeoutId\<close>, no \<^verbatim>\<open>timestamp\<close> (the duration is
  \<^verbatim>\<open>NaN\<close>) and no \<^verbatim>\<open>resolve\<close>: calling it throws a \<^verbatim>\<open>TypeError\<close>.
\<close>

definition handleSuccess :: "bridge \<Rightarrow> jsval \<Rightarrow> jsval \<Rightarrow> outcome" where
  "handleSuccess st requestId response =
     (case toStr requestId of
        None \<Rightarrow> (st, Some TypeError)
      | Some k \<Rightarrow>
          (case lookup (callbackRegistry st) k of
             Missing \<Rightarrow> (st, None)
           | Own e \<Rightarrow>
               (let st1 = clearTimeout st (Some (timeoutId e));
                    st2 = logger_log st1 [Txt ''Success Response:'', Val response];
                    duration = clock st2 - timestamp e;
                    st3 = logger_log st2 [Txt (''Request took '' @ show_int duration @ ''ms'')];
                    st4 = settle st3 (promise e) (Fulfilled response)
                in (st4\<lparr>callbackRegistry := AList.delete k (callbackRegistry st4)\<rparr>, None))
           | Inherited \<Rightarrow>
               (let st1 = clearTimeout st None;
                    st2 = logger_log st1 [Txt ''Success Response:'', Val response];
                    st3 = logger_log st2 [Txt (''Request took '' @ ''NaN'' @ ''ms'')]
                in (st3, Some TypeError))))"

definition handleFailure :: "bridge \<Rightarrow> jsval \<Rightarrow> jsval \<Rightarrow> outcome" where
  "handleFailure st requestId error =
     (case toStr requestId of
        None \<Rightarrow> (st, Some TypeError)
      | Some k \<Rightarrow>
          (case lookup (callbackRegistry st) k of
             Missing \<Rightarrow> (st, None)
           | Own e \<Rightarrow>
               (let st1 = clearTimeout st (Some (timeoutId e));
                    st2 = logger_error st1 [Txt ''Error Response:'', Val error];
                    st3 = settle st2 (promise e) (Rejected (Value error))
                in (st3\<lparr>callbackRegistry := AList.delete k (callbackRegistry st3)\<rparr>, None))
           | Inherited \<Rightarrow>
               (let st1 = clearTimeout st None;
                    st2 = logger_error st1 [Txt ''Error Response:'', Val error]
                in (st2, Some TypeError))))"

text \<open>
  The callback that \<^verbatim>\<open>call\<close> hands to \<^verbatim>\<open>setTimeout\<close> (lines 59 to 63), and the
  environment running it: a timeout that is still scheduled fires once and is gone.
  When it fires is the environment's choice.
\<close>

definition timeout_callback :: "bridge \<Rightarrow> string \<Rightarrow> outcome" where
  "timeout_callback st requestId =
     (if present (lookup (callbackRegistry st) requestId)
      then handleFailure st (JStr requestId) (JObj [(''error'', JStr ''Request Timeout'')])
      else (st, None))"

definition fire_timeout :: "bridge \<Rightarrow> nat \<Rightarrow> outcome" where
  "fire_timeout st tid =
     (case map_of (timers st) tid of
        None \<Rightarrow> (st, None)
      | Some requestId \<Rightarrow> timeout_callback (st\<lparr>timers := AList.delete tid (timers st)\<rparr>) requestId)"

subsection \<open>Events\<close>

text \<open>
  \<^verbatim>\<open>addListener\<close>: the unregistration function it returns is
  \<^verbatim>\<open>() => bridge.removeListener(eventName, callback)\<close>, that is \<open>removeListener\<close> below.
  On an inherited member, \<^verbatim>\<open>push\<close>, \<^verbatim>\<open>filter\<close> and \<^verbatim>\<open>forEach\<close> are undefined and the
  call throws. In \<open>removeListener\<close> and \<open>dispatchEvent\<close> the name is any value, and
  converting it to a key or printing it can throw before anything else happens.
\<close>

definition addListener :: "bridge \<Rightarrow> jsval \<Rightarrow> callback \<Rightarrow> outcome" where
  "addListener st eventName cb =
     (if typeof eventName \<noteq> ''string'' \<or> \<not> truthy eventName
      then (logger_error st [Txt ''Invalid event name''], None)
      else case cb of
        NotFn v \<Rightarrow> (logger_error st [Txt ''Event callback must be a function''], None)
      | Fn f \<Rightarrow>
          (case toStr eventName of
             None \<Rightarrow> (st, Some TypeError)
           | Some k \<Rightarrow>
               (let st1 = (if \<not> present (lookup (eventListeners st) k)
                           then st\<lparr>eventListeners := AList.update k [] (eventListeners st)\<rparr>
                           else st)
                in case lookup (eventListeners st1) k of
                     Own cbs \<Rightarrow>
                       (logger_log
                          (st1\<lparr>eventListeners := AList.update k (cbs @ [f]) (eventListeners st1)\<rparr>)
                          [Txt (''Added listener for event: '' @ k)], None)
                   | Inherited \<Rightarrow> (st1, Some TypeError)
                   | Missing \<Rightarrow> (st1, Some TypeError))))"

definition removeListener :: "bridge \<Rightarrow> jsval \<Rightarrow> callback \<Rightarrow> outcome" where
  "removeListener st eventName cb =
     (case toStr eventName of
        None \<Rightarrow> (st, Some TypeError)
      | Some k \<Rightarrow>
          (case lookup (eventListeners st) k of
             Missing \<Rightarrow> (st, None)
           | Inherited \<Rightarrow> (st, Some TypeError)
           | Own cbs \<Rightarrow>
               (let initialSize = length cbs;
                    cbs' = filter (\<lambda>c. Fn c \<noteq> cb) cbs;
                    st1 = st\<lparr>eventListeners := AList.update k cbs' (eventListeners st)\<rparr>;
                    st2 = (if initialSize \<noteq> length cbs'
                           then logger_log st1 [Txt (''Removed listener for event: '' @ k)]
                           else st1)
                in (if length cbs' = 0
                    then st2\<lparr>eventListeners := AList.delete k (eventListeners st2)\<rparr>
                    else st2, None))))"

text \<open>One round of the \<^verbatim>\<open>forEach\<close>: the listener runs, and what it throws is logged.\<close>

definition invoke :: "host \<Rightarrow> string \<Rightarrow> jsval \<Rightarrow> nat \<Rightarrow> bridge \<Rightarrow> bridge" where
  "invoke h name data cb st =
     (let st1 = st\<lparr>delivered := delivered st @ [(cb, data)]\<rparr>
      in case listener_body h cb data of
           None \<Rightarrow> st1
         | Some err \<Rightarrow>
             logger_error st1
               [Txt (''Error in event listener for '' @ [CHR 0x27] @ name @ [CHR 0x27] @ '':''), Exn err])"

definition dispatchEvent :: "host \<Rightarrow> bridge \<Rightarrow> jsval \<Rightarrow> jsval \<Rightarrow> outcome" where
  "dispatchEvent h st eventName data =
     (case toStr eventName of
        None \<Rightarrow> (st, Some TypeError)
      | Some k \<Rightarrow>
          (let st1 = logger_log st
                       [Txt (''Dispatching event '' @ [CHR 0x27] @ k @ [CHR 0x27] @ '' with data:''),
                        Val data]
           in case lookup (eventListeners st1) k of
                Missing \<Rightarrow> (st1, None)
              | Inherited \<Rightarrow> (st1, Some TypeError)
              | Own cbs \<Rightarrow> (fold (invoke h k data) cbs st1, None)))"

text \<open>
  \<^verbatim>\<open>Object.keys(eventListeners)\<close>: the names in the table, here in insertion order (an
  engine lists names that are array indices first).
\<close>

definition getRegisteredEvents :: "bridge \<Rightarrow> string list" where
  "getRegisteredEvents st = map fst (eventListeners st)"

subsection \<open>Parameters\<close>

definition setParams :: "host \<Rightarrow> bridge \<Rightarrow> jsval \<Rightarrow> outcome" where
  "setParams h st newParams =
     (if typeof newParams \<noteq> ''object'' \<or> newParams = JNull
      then (logger_error st [Txt ''Invalid params object''], None)
      else
        let st1 = st\<lparr>paramsStore := spread (paramsStore st) (own_props newParams)\<rparr>;
            st2 = logger_log st1 [Txt ''Params updated:'', Val (JObj (paramsStore st1))]
        in dispatchEvent h st2 (JStr ''paramsUpdated'') (JObj (paramsStore st2)))"

text \<open>
  \<^verbatim>\<open>getParams(key)\<close> returns a value, or the member of \<^verbatim>\<open>Object.prototype\<close> that
  \<^verbatim>\<open>paramsStore[key]\<close> inherits, or throws where the key has no property name. A
  call without argument passes \<^verbatim>\<open>undefined\<close>. The copy \<^verbatim>\<open>{ ...paramsStore }\<close> is a new
  object with the same properties.
\<close>

datatype getresult = Returns jsval | Builtin string | Fails exn

definition getParams :: "bridge \<Rightarrow> jsval \<Rightarrow> getresult" where
  "getParams st key =
     (if truthy key
      then (case toStr key of
              None \<Rightarrow> Fails TypeError
            | Some k \<Rightarrow>
                (case lookup (paramsStore st) k of
                   Own v \<Rightarrow> Returns v
                 | Inherited \<Rightarrow> Builtin k
                 | Missing \<Rightarrow> Returns JUndefined))
      else Returns (JObj (paramsStore st)))"

subsection \<open>Inbound messages\<close>

text \<open>
  The body of the \<^verbatim>\<open>try\<close> block of \<^verbatim>\<open>receiveMessage\<close>, its \<^verbatim>\<open>catch\<close> clause, and
  the whole function.
\<close>

definition receiveMessage_try :: "host \<Rightarrow> bridge \<Rightarrow> jsval \<Rightarrow> outcome" where
  "receiveMessage_try h st response =
     (let st1 = logger_log st [Txt ''Received from Flutter:'', Val response];
          (res, st2) = safeParseJSON h st1 response
      in if \<not> truthy res then (st2, None)
         else if truthy (getProp res ''event'')
         then dispatchEvent h st2 (getProp res ''event'') (getProp res ''data'')
         else if truthy (getProp res ''id'') \<and> typeof (getProp res ''success'') = ''boolean''
         then (if truthy (getProp res ''success'')
               then handleSuccess st2 (getProp res ''id'') (getProp res ''data'')
               else handleFailure st2 (getProp res ''id'')
                      (if truthy (getProp res ''error'') then getProp res ''error''
                       else JObj [(''error'', JStr ''Unknown error'')]))
         else (st2, None))"

definition catch_and_log :: "outcome \<Rightarrow> outcome" where
  "catch_and_log r =
     (case r of
        (st', None) \<Rightarrow> (st', None)
      | (st', Some e) \<Rightarrow> (logger_error st' [Txt ''Error processing message:'', Exn e], None))"

definition receiveMessage :: "host \<Rightarrow> bridge \<Rightarrow> jsval \<Rightarrow> outcome" where
  "receiveMessage h st response = catch_and_log (receiveMessage_try h st response)"

section \<open>Runs\<close>

text \<open>
  Everything that can happen to a loaded bridge: a call of one of its methods by the
  mini-app or by the host, a timeout firing, the clock moving. A run applies a
  sequence of these; what a method throws is the caller's to handle, the state goes on.
\<close>

datatype event =
    Call jsval jsval jsval channel
  | HandleSuccess jsval jsval
  | HandleFailure jsval jsval
  | AddListener jsval callback
  | RemoveListener jsval callback
  | DispatchEvent jsval jsval
  | SetParams jsval
  | ReceiveMessage jsval
  | TimeoutFires nat
  | ClockReads int

fun step :: "host \<Rightarrow> bridge \<Rightarrow> event \<Rightarrow> bridge" where
  "step h st (Call className methodName params chan) = snd (call st className methodName params chan)"
| "step h st (HandleSuccess requestId response) = fst (handleSuccess st requestId response)"
| "step h st (HandleFailure requestId error) = fst (handleFailure st requestId error)"
| "step h st (AddListener eventName cb) = fst (addListener st eventName cb)"
| "step h st (RemoveListener eventName cb) = fst (removeListener st eventName cb)"
| "step h st (DispatchEvent eventName data) = fst (dispatchEvent h st eventName data)"
| "step h st (SetParams newParams) = fst (setParams h st newParams)"
| "step h st (ReceiveMessage response) = fst (receiveMessage h st response)"
| "step h st (TimeoutFires tid) = fst (fire_timeout st tid)"
| "step h st (ClockReads t) = st\<lparr>clock := t\<rparr>"

definition run :: "host \<Rightarrow> bridge \<Rightarrow> event list \<Rightarrow> bridge" where
  "run h st evs = foldl (step h) st evs"

section \<open>Notions used in the statements\<close>

text \<open>The listeners registered under a name: the name's own entry, or none.\<close>

definition listeners_of :: "bridge \<Rightarrow> string \<Rightarrow> nat list" where
  "listeners_of st name = (case map_of (eventListeners st) name of Some cbs \<Rightarrow> cbs | None \<Rightarrow> [])"

text \<open>
  The invariant of the subscriber table: each name is a key once, and no key is kept
  with an empty list.
\<close>

definition subscribers_ok :: "bridge \<Rightarrow> bool" where
  "subscribers_ok st \<longleftrightarrow>
     distinct (map fst (eventListeners st)) \<and> (\<forall>(name, cbs) \<in> set (eventListeners st). cbs \<noteq> [])"

text \<open>
  A host for the worked examples. Its \<open>JSON_parse\<close> reads the scalar texts the
  examples use as \<^verbatim>\<open>JSON.parse\<close> does, and throws on the other texts they use
  (\<^verbatim>\<open>not json\<close>); its listener \<open>0\<close> throws, every other listener returns.
\<close>

definition literal_parse :: "string \<Rightarrow> exn + jsval" where
  "literal_parse s =
     (if s = ''null'' then Inr JNull
      else if s = ''true'' then Inr (JBool True)
      else if s = ''false'' then Inr (JBool False)
      else if s = ''0'' then Inr (JNum 0)
      else if s = [CHR 0x22, CHR 0x22] then Inr (JStr [])
      else Inl SyntaxError)"

definition example_host :: host where
  "example_host =
     \<lparr> JSON_parse = literal_parse,
       listener_body = (\<lambda>cb data. if cb = 0 then Some (ErrorObj ''listener failed'') else None) \<rparr>"

text \<open>
  The router as the specification words it, to compare with \<open>receiveMessage\<close>: a
  message "carries" a field when it has the property, and the error falls back to
  the default only when it is \<^verbatim>\<open>null\<close> or \<^verbatim>\<open>undefined\<close> (\<^verbatim>\<open>??\<close>).
\<close>

definition carries :: "jsval \<Rightarrow> string \<Rightarrow> bool" where
  "carries v k = (case v of JObj kvs \<Rightarrow> map_of kvs k \<noteq> None | _ \<Rightarrow> False)"

definition nullish_or :: "jsval \<Rightarrow> jsval \<Rightarrow> jsval" where
  "nullish_or a b = (if a = JUndefined \<or> a = JNull then b else a)"

definition receiveMessage_as_specified :: "host \<Rightarrow> bridge \<Rightarrow> jsval \<Rightarrow> outcome" where
  "receiveMessage_as_specified h st response =
     (let st1 = logger_log st [Txt ''Received from Flutter:'', Val response];
          (res, st2) = safeParseJSON h st1 response
      in if \<not> truthy res then (st2, None)
         else catch_and_log
           (if carries res ''event''
            then dispatchEvent h st2 (getProp res ''event'') (getProp res ''data'')
            else if carries res ''id'' \<and> typeof (getProp res ''success'') = ''boolean''
            then (if getProp res ''success'' = JBool True
                  then handleSuccess st2 (getProp res ''id'') (getProp res ''data'')
                  else handleFailure st2 (getProp res ''id'')
                         (nullish_or (getProp res ''error'') (JObj [(''error'', JStr ''Unknown error'')])))
            else (st2, None)))"

text \<open>
  The bridge once the script has run with the host channel in place: its last
  statement (lines 224 to 234) calls \<^verbatim>\<open>bridge.call("superAppBase", "initialized", {})\<close>.
  The reactions it attaches to the promise only log, and are left out.
\<close>

definition loaded :: bridge where
  "loaded = snd (call init (JStr ''superAppBase'') (JStr ''initialized'') (JObj []) Accepts)"

text \<open>
  The bridge after \<open>2 ^ 53 - 1\<close> calls with valid names and no channel: a run that takes
  the counter from 1 to \<open>2 ^ 53\<close>.
\<close>

definition saturated :: bridge where
  "saturated =
     run example_host init (replicate (2 ^ 53 - 1) (Call (JStr ''a'') (JStr ''b'') (JObj []) Absent))"

text \<open>
  While the counter is below \<open>2 ^ 53\<close>, every id issued so far was made from a smaller
  counter value.
\<close>

definition ids_below :: "bridge \<Rightarrow> bool" where
  "ids_below st \<longleftrightarrow>
     (requestIdCounter st < 2 ^ 53 \<longrightarrow>
        (\<forall>i \<in> set (issued st). \<exists>t c. i = make_id t c \<and> c < requestIdCounter st))"

section \<open>Request identifiers\<close>

lemmas env_defs = logger_log_def logger_error_def clearTimeout_def settle_def setTimeout_def
  new_promise_def generateRequestId_def DEBUG_def

lemma init_state:
  "init =
     \<lparr> paramsStore = [], callbackRegistry = [], requestIdCounter = 1, eventListeners = [],
       clock = 0, timers = [], nextTimeoutId = 1, promises = [], outbox = [],
       console = [(LOG, [Txt ''[MiniApp]'', Txt ''Initializing SuperApp Bridge v0.1.0...'']),
                  (LOG, [Txt ''[MiniApp]'', Txt ''SuperApp Bridge is Ready!''])],
       delivered = [], issued = [] \<rparr>"
  by (simp add: init_def env_defs VERSION_def)

lemma digit_cases:
  "d < 10 \<Longrightarrow> d = 0 \<or> d = 1 \<or> d = 2 \<or> d = 3 \<or> d = 4 \<or> d = 5 \<or> d = 6 \<or> d = 7 \<or> d = 8 \<or> (d::nat) = 9"
  by arith

lemma digit_char_not_underscore: "d < 10 \<Longrightarrow> digit_char d \<noteq> CHR ''_''"
  using digit_cases[of d] by (auto simp: digit_char_def)

lemma digit_char_value: "d < 10 \<Longrightarrow> of_char (digit_char d) = 48 + d"
  using digit_cases[of d] by (auto simp: digit_char_def)

lemma show_nat_value: "foldl (\<lambda>a ch. 10 * a + (of_char ch - 48)) 0 (show_nat n) = n"
proof (induction n rule: show_nat.induct)
  case (1 n)
  show ?case
  proof (cases "n < 10")
    case True
    then show ?thesis
      by (subst show_nat.simps) (simp add: digit_char_value)
  next
    case False
    with 1 have "foldl (\<lambda>a ch. 10 * a + (of_char ch - 48)) 0 (show_nat (n div 10)) = n div 10"
      by simp
    with False show ?thesis
      by (subst show_nat.simps) (simp add: digit_char_value)
  qed
qed

lemma show_nat_inj: "show_nat m = show_nat n \<Longrightarrow> m = n"
  by (metis show_nat_value)

lemma show_nat_no_underscore: "CHR ''_'' \<notin> set (show_nat n)"
proof (induction n rule: show_nat.induct)
  case (1 n)
  show ?case
  proof (cases "n < 10")
    case True
    then show ?thesis
      using digit_char_not_underscore[of n] by (subst show_nat.simps) auto
  next
    case False
    with 1 have "CHR ''_'' \<notin> set (show_nat (n div 10))"
      by simp
    with False show ?thesis
      using digit_char_not_underscore[of "n mod 10"] by (subst show_nat.simps) auto
  qed
qed

text \<open>What follows the last separator of a text determines it.\<close>

lemma after_last_separator:
  assumes "u \<notin> set c" and "u \<notin> set d" and "a @ u # c = b @ u # d"
  shows "c = d"
proof -
  have "takeWhile (\<lambda>x. x \<noteq> u) (rev (a @ u # c)) = rev c"
    using assms(1) by (auto simp: takeWhile_tail)
  moreover have "takeWhile (\<lambda>x. x \<noteq> u) (rev (b @ u # d)) = rev d"
    using assms(2) by (auto simp: takeWhile_tail)
  ultimately show ?thesis
    using assms(3) by simp
qed

lemma make_id_counter: "make_id t c = make_id t' c' \<Longrightarrow> c = c'"
proof -
  assume "make_id t c = make_id t' c'"
  then have "(''sa_'' @ show_int t) @ CHR ''_'' # show_nat c
           = (''sa_'' @ show_int t') @ CHR ''_'' # show_nat c'"
    by (simp add: make_id_def)
  then have "show_nat c = show_nat c'"
    by (rule after_last_separator[OF show_nat_no_underscore show_nat_no_underscore])
  then show ?thesis
    by (rule show_nat_inj)
qed



section \<open>Settling a request\<close>

lemma handleSuccess_unprintable:
  "toStr requestId = None \<Longrightarrow> handleSuccess st requestId response = (st, Some TypeError)"
  by (simp add: handleSuccess_def)

lemma handleFailure_unprintable:
  "toStr requestId = None \<Longrightarrow> handleFailure st requestId error = (st, Some TypeError)"
  by (simp add: handleFailure_def)







lemma timeout_callback_eq:
  "timeout_callback st rid = handleFailure st (JStr rid) (JObj [(''error'', JStr ''Request Timeout'')])"
  by (cases "lookup (callbackRegistry st) rid") (simp_all add: timeout_callback_def handleFailure_def)

section \<open>What each operation leaves alone\<close>

lemma handleSuccess_frame [simp]:
  "paramsStore (fst (handleSuccess st i r)) = paramsStore st"
  "requestIdCounter (fst (handleSuccess st i r)) = requestIdCounter st"
  "eventListeners (fst (handleSuccess st i r)) = eventListeners st"
  "clock (fst (handleSuccess st i r)) = clock st"
  "nextTimeoutId (fst (handleSuccess st i r)) = nextTimeoutId st"
  "outbox (fst (handleSuccess st i r)) = outbox st"
  "delivered (fst (handleSuccess st i r)) = delivered st"
  "issued (fst (handleSuccess st i r)) = issued st"
  by (simp_all add: handleSuccess_def env_defs Let_def split: slot.splits option.splits)

lemma handleFailure_frame [simp]:
  "paramsStore (fst (handleFailure st i r)) = paramsStore st"
  "requestIdCounter (fst (handleFailure st i r)) = requestIdCounter st"
  "eventListeners (fst (handleFailure st i r)) = eventListeners st"
  "clock (fst (handleFailure st i r)) = clock st"
  "nextTimeoutId (fst (handleFailure st i r)) = nextTimeoutId st"
  "outbox (fst (handleFailure st i r)) = outbox st"
  "delivered (fst (handleFailure st i r)) = delivered st"
  "issued (fst (handleFailure st i r)) = issued st"
  by (simp_all add: handleFailure_def env_defs Let_def split: slot.splits option.splits)

lemma fire_timeout_frame [simp]:
  "paramsStore (fst (fire_timeout st tid)) = paramsStore st"
  "requestIdCounter (fst (fire_timeout st tid)) = requestIdCounter st"
  "eventListeners (fst (fire_timeout st tid)) = eventListeners st"
  "clock (fst (fire_timeout st tid)) = clock st"
  "nextTimeoutId (fst (fire_timeout st tid)) = nextTimeoutId st"
  "outbox (fst (fire_timeout st tid)) = outbox st"
  "delivered (fst (fire_timeout st tid)) = delivered st"
  "issued (fst (fire_timeout st tid)) = issued st"
  by (simp_all add: fire_timeout_def timeout_callback_eq split: option.splits)

lemma addListener_frame [simp]:
  "paramsStore (fst (addListener st n cb)) = paramsStore st"
  "callbackRegistry (fst (addListener st n cb)) = callbackRegistry st"
  "requestIdCounter (fst (addListener st n cb)) = requestIdCounter st"
  "clock (fst (addListener st n cb)) = clock st"
  "timers (fst (addListener st n cb)) = timers st"
  "nextTimeoutId (fst (addListener st n cb)) = nextTimeoutId st"
  "promises (fst (addListener st n cb)) = promises st"
  "outbox (fst (addListener st n cb)) = outbox st"
  "delivered (fst (addListener st n cb)) = delivered st"
  "issued (fst (addListener st n cb)) = issued st"
  by (simp_all add: addListener_def env_defs Let_def split: slot.splits callback.splits option.splits)

lemma removeListener_frame [simp]:
  "paramsStore (fst (removeListener st n cb)) = paramsStore st"
  "callbackRegistry (fst (removeListener st n cb)) = callbackRegistry st"
  "requestIdCounter (fst (removeListener st n cb)) = requestIdCounter st"
  "clock (fst (removeListener st n cb)) = clock st"
  "timers (fst (removeListener st n cb)) = timers st"
  "nextTimeoutId (fst (removeListener st n cb)) = nextTimeoutId st"
  "promises (fst (removeListener st n cb)) = promises st"
  "outbox (fst (removeListener st n cb)) = outbox st"
  "delivered (fst (removeListener st n cb)) = delivered st"
  "issued (fst (removeListener st n cb)) = issued st"
  by (simp_all add: removeListener_def env_defs Let_def split: slot.splits option.splits)

lemma invoke_frame [simp]:
  "paramsStore (invoke h k d cb st) = paramsStore st"
  "callbackRegistry (invoke h k d cb st) = callbackRegistry st"
  "requestIdCounter (invoke h k d cb st) = requestIdCounter st"
  "eventListeners (invoke h k d cb st) = eventListeners st"
  "clock (invoke h k d cb st) = clock st"
  "timers (invoke h k d cb st) = timers st"
  "nextTimeoutId (invoke h k d cb st) = nextTimeoutId st"
  "promises (invoke h k d cb st) = promises st"
  "outbox (invoke h k d cb st) = outbox st"
  "issued (invoke h k d cb st) = issued st"
  "delivered (invoke h k d cb st) = delivered st @ [(cb, d)]"
  by (simp_all add: invoke_def env_defs Let_def split: option.splits)

lemma forEach_frame [simp]:
  "paramsStore (fold (invoke h k d) cbs st) = paramsStore st"
  "callbackRegistry (fold (invoke h k d) cbs st) = callbackRegistry st"
  "requestIdCounter (fold (invoke h k d) cbs st) = requestIdCounter st"
  "eventListeners (fold (invoke h k d) cbs st) = eventListeners st"
  "clock (fold (invoke h k d) cbs st) = clock st"
  "timers (fold (invoke h k d) cbs st) = timers st"
  "nextTimeoutId (fold (invoke h k d) cbs st) = nextTimeoutId st"
  "promises (fold (invoke h k d) cbs st) = promises st"
  "outbox (fold (invoke h k d) cbs st) = outbox st"
  "issued (fold (invoke h k d) cbs st) = issued st"
  by (induction cbs arbitrary: st; simp)+


lemma dispatchEvent_frame [simp]:
  "paramsStore (fst (dispatchEvent h st n d)) = paramsStore st"
  "callbackRegistry (fst (dispatchEvent h st n d)) = callbackRegistry st"
  "requestIdCounter (fst (dispatchEvent h st n d)) = requestIdCounter st"
  "eventListeners (fst (dispatchEvent h st n d)) = eventListeners st"
  "clock (fst (dispatchEvent h st n d)) = clock st"
  "timers (fst (dispatchEvent h st n d)) = timers st"
  "nextTimeoutId (fst (dispatchEvent h st n d)) = nextTimeoutId st"
  "promises (fst (dispatchEvent h st n d)) = promises st"
  "outbox (fst (dispatchEvent h st n d)) = outbox st"
  "issued (fst (dispatchEvent h st n d)) = issued st"
  by (simp_all add: dispatchEvent_def env_defs Let_def split: slot.splits option.splits)

lemma setParams_frame [simp]:
  "callbackRegistry (fst (setParams h st v)) = callbackRegistry st"
  "requestIdCounter (fst (setParams h st v)) = requestIdCounter st"
  "eventListeners (fst (setParams h st v)) = eventListeners st"
  "clock (fst (setParams h st v)) = clock st"
  "timers (fst (setParams h st v)) = timers st"
  "nextTimeoutId (fst (setParams h st v)) = nextTimeoutId st"
  "promises (fst (setParams h st v)) = promises st"
  "outbox (fst (setParams h st v)) = outbox st"
  "issued (fst (setParams h st v)) = issued st"
  by (simp_all add: setParams_def env_defs Let_def)

lemma safeParseJSON_frame [simp]:
  "paramsStore (snd (safeParseJSON h st v)) = paramsStore st"
  "callbackRegistry (snd (safeParseJSON h st v)) = callbackRegistry st"
  "requestIdCounter (snd (safeParseJSON h st v)) = requestIdCounter st"
  "eventListeners (snd (safeParseJSON h st v)) = eventListeners st"
  "clock (snd (safeParseJSON h st v)) = clock st"
  "timers (snd (safeParseJSON h st v)) = timers st"
  "nextTimeoutId (snd (safeParseJSON h st v)) = nextTimeoutId st"
  "promises (snd (safeParseJSON h st v)) = promises st"
  "outbox (snd (safeParseJSON h st v)) = outbox st"
  "delivered (snd (safeParseJSON h st v)) = delivered st"
  "issued (snd (safeParseJSON h st v)) = issued st"
  by (simp_all add: safeParseJSON_def env_defs split: jsval.splits sum.splits)

lemma catch_and_log_frame [simp]:
  "paramsStore (fst (catch_and_log r)) = paramsStore (fst r)"
  "callbackRegistry (fst (catch_and_log r)) = callbackRegistry (fst r)"
  "requestIdCounter (fst (catch_and_log r)) = requestIdCounter (fst r)"
  "eventListeners (fst (catch_and_log r)) = eventListeners (fst r)"
  "clock (fst (catch_and_log r)) = clock (fst r)"
  "timers (fst (catch_and_log r)) = timers (fst r)"
  "nextTimeoutId (fst (catch_and_log r)) = nextTimeoutId (fst r)"
  "promises (fst (catch_and_log r)) = promises (fst r)"
  "outbox (fst (catch_and_log r)) = outbox (fst r)"
  "delivered (fst (catch_and_log r)) = delivered (fst r)"
  "issued (fst (catch_and_log r)) = issued (fst r)"
  "snd (catch_and_log r) = None"
  by (simp_all add: catch_and_log_def env_defs split: prod.splits option.splits)

lemma receiveMessage_frame [simp]:
  "paramsStore (fst (receiveMessage h st v)) = paramsStore st"
  "requestIdCounter (fst (receiveMessage h st v)) = requestIdCounter st"
  "eventListeners (fst (receiveMessage h st v)) = eventListeners st"
  "clock (fst (receiveMessage h st v)) = clock st"
  "nextTimeoutId (fst (receiveMessage h st v)) = nextTimeoutId st"
  "outbox (fst (receiveMessage h st v)) = outbox st"
  "issued (fst (receiveMessage h st v)) = issued st"
  by (simp_all add: receiveMessage_def receiveMessage_try_def env_defs Let_def split_beta)

lemma call_frame [simp]:
  "paramsStore (snd (call st c m ps chan)) = paramsStore st"
  "eventListeners (snd (call st c m ps chan)) = eventListeners st"
  "clock (snd (call st c m ps chan)) = clock st"
  "delivered (snd (call st c m ps chan)) = delivered st"
  by (simp_all add: call_def env_defs Let_def split: channel.splits option.splits)

text \<open>Unfolding the model on concrete states and identifiers.\<close>

lemmas eval_defs = init_state make_id_def show_int_def show_nat.simps digit_char_def
  timeoutDuration_def object_prototype_keys_def lookup_def increment_def

section \<open>Claims about requests\<close>

text \<open>
  C1 (the code departs from the claim). The claim: settling happens at most once per
  id, and \<open>handleSuccess\<close> or \<open>handleFailure\<close> with an id that has no pending entry
  does nothing and throws nothing. For ids the bridge has generated this is
  \<open>settle_once\<close> below. For an id that names a member of \<^verbatim>\<open>Object.prototype\<close> the
  guard \<^verbatim>\<open>if (callbackRegistry[requestId])\<close> finds the inherited member: on the fresh
  bridge, where nothing is pending, both functions log and then throw a
  \<^verbatim>\<open>TypeError\<close> for the id \<^verbatim>\<open>"toString"\<close>.
\<close>

theorem settle_unknown_inherited_id_throws:
  "map_of (callbackRegistry init) ''toString'' = None
   \<and> handleSuccess init (JStr ''toString'') (JObj []) =
       (init\<lparr>console := console init @
                 [(LOG, [Txt ''[MiniApp]'', Txt ''Success Response:'', Val (JObj [])]),
                  (LOG, [Txt ''[MiniApp]'', Txt ''Request took NaNms''])]\<rparr>,
        Some TypeError)
   \<and> handleFailure init (JStr ''toString'') (JObj []) =
       (init\<lparr>console := console init @
                 [(ERROR, [Txt ''[MiniApp]'', Txt ''Error Response:'', Val (JObj [])])]\<rparr>,
        Some TypeError)"
  by (simp add: handleSuccess_def handleFailure_def env_defs eval_defs Let_def)

text \<open>
  What \<^verbatim>\<open>call\<close> does when it fails locally and the \<^verbatim>\<open>catch\<close> clause runs to its end.
  With a \<open>className\<close> or \<open>methodName\<close> that is not a non-empty string, the new
  promise is rejected and nothing else changes, whatever the channel is: no id is
  generated, and the transport is not consulted. With valid names, a payload that
  serialises, and a channel that is absent or whose \<open>postMessage\<close> throws something
  with a printable \<^verbatim>\<open>message\<close>, the promise is rejected with the transport's error,
  nothing is added to the outbox, and the entry and the timeout that the call had
  created are removed again.
\<close>

lemma call_local_failure:
  "(typeof className \<noteq> ''string'' \<or> \<not> truthy className \<longrightarrow>
      call st className methodName params chan =
        (length (promises st),
         st\<lparr>promises := promises st @ [Rejected (ErrorObj ''Invalid className'')]\<rparr>))
   \<and> (typeof className = ''string'' \<and> truthy className
        \<and> (typeof methodName \<noteq> ''string'' \<or> \<not> truthy methodName) \<longrightarrow>
      call st className methodName params chan =
        (length (promises st),
         st\<lparr>promises := promises st @ [Rejected (ErrorObj ''Invalid methodName'')]\<rparr>))
   \<and> (typeof className = ''string'' \<and> truthy className
        \<and> typeof methodName = ''string'' \<and> truthy methodName
        \<and> JSON_stringify (JObj [(''id'', JStr (make_id (clock st) (requestIdCounter st))),
                                  (''className'', className), (''method'', methodName),
                                  (''params'', if params = JUndefined then JObj [] else params)]) \<noteq> None
        \<and> (chan = Absent \<or> thrown_message chan \<noteq> None) \<longrightarrow>
      (case call st className methodName params chan of
         (p, st') \<Rightarrow>
           p = length (promises st)
           \<and> promises st' = promises st @
                [Rejected (ErrorObj (case thrown_message chan of
                                       Some m \<Rightarrow> ''Failed to send message: '' @ m
                                     | None \<Rightarrow> ''SuperAppChannel is not available!''))]
           \<and> outbox st' = outbox st
           \<and> callbackRegistry st' =
               AList.delete (make_id (clock st) (requestIdCounter st)) (callbackRegistry st)
           \<and> map_of (callbackRegistry st') (make_id (clock st) (requestIdCounter st)) = None
           \<and> timers st' = AList.delete (nextTimeoutId st) (timers st)
           \<and> map_of (timers st') (nextTimeoutId st) = None))"
  by (cases chan)
     (auto simp add: call_def thrown_message_def env_defs Let_def AList.delete_update_same
        AList.delete_conv')

text \<open>
  C3 (the code departs from the claim). The claim: whenever \<^verbatim>\<open>call\<close> fails locally,
  also when the transport's send raises, the promise is rejected at once, no
  pending entry remains in the registry and no timeout remains scheduled. The
  \<^verbatim>\<open>catch\<close> clause of lines 80 to 84 reads \<^verbatim>\<open>e.message\<close> before it deletes the entry.
  When \<^verbatim>\<open>postMessage\<close> throws \<^verbatim>\<open>null\<close>, that read throws: the promise is rejected
  (with the \<^verbatim>\<open>TypeError\<close>) and the timeout is cleared, but line 83 is never reached
  and the entry stays in the registry, as the first call on the fresh bridge
  shows. The branch for an absent channel deletes the entry, and so does the
  \<^verbatim>\<open>catch\<close> clause for every thrown value with a printable message
  (\<open>call_local_failure\<close>). A failure of \<^verbatim>\<open>JSON.stringify\<close> at line 67 (here on a BigInt
  among the parameters) is local as well, and leaves both the entry and the
  timeout behind.
\<close>

theorem call_send_raises_null_keeps_entry:
  "promises (snd (call init (JStr ''a'') (JStr ''b'') (JObj []) (RaisesValue JNull))) =
     [Rejected TypeError]
   \<and> callbackRegistry (snd (call init (JStr ''a'') (JStr ''b'') (JObj []) (RaisesValue JNull))) =
     [(''sa_0_1'', \<lparr>promise = 0, timestamp = 0, timeoutId = 1\<rparr>)]
   \<and> timers (snd (call init (JStr ''a'') (JStr ''b'') (JObj []) (RaisesValue JNull))) = []
   \<and> outbox (snd (call init (JStr ''a'') (JStr ''b'') (JObj []) (RaisesValue JNull))) = []
   \<and> promises (snd (call init (JStr ''a'') (JStr ''b'') (JObj [(''n'', JBigInt 1)]) Accepts)) =
     [Rejected TypeError]
   \<and> callbackRegistry (snd (call init (JStr ''a'') (JStr ''b'') (JObj [(''n'', JBigInt 1)]) Accepts)) =
     [(''sa_0_1'', \<lparr>promise = 0, timestamp = 0, timeoutId = 1\<rparr>)]
   \<and> timers (snd (call init (JStr ''a'') (JStr ''b'') (JObj [(''n'', JBigInt 1)]) Accepts)) =
     [(1, ''sa_0_1'')]
   \<and> outbox (snd (call init (JStr ''a'') (JStr ''b'') (JObj [(''n'', JBigInt 1)]) Accepts)) = []"
  by (simp add: call_def thrown_message_def env_defs eval_defs Let_def)

theorem call_send_raises_null_keeps_entry_witness:
  "typeof (JStr ''a'') = ''string'' \<and> truthy (JStr ''a'')
   \<and> typeof (JStr ''b'') = ''string'' \<and> truthy (JStr ''b'')
   \<and> thrown_message (RaisesValue JNull) = None
   \<and> JSON_stringify (JObj [(''n'', JBigInt 1)]) = None
   \<and> map_of (callbackRegistry (snd (call init (JStr ''a'') (JStr ''b'') (JObj []) (RaisesValue JNull))))
         ''sa_0_1'' = Some \<lparr>promise = 0, timestamp = 0, timeoutId = 1\<rparr>
   \<and> map_of (timers (snd (call init (JStr ''a'') (JStr ''b'') (JObj []) (RaisesValue JNull)))) 1 = None
   \<and> map_of (callbackRegistry (snd (call init (JStr ''a'') (JStr ''b'') (JObj [(''n'', JBigInt 1)]) Accepts)))
         ''sa_0_1'' = Some \<lparr>promise = 0, timestamp = 0, timeoutId = 1\<rparr>
   \<and> map_of (timers (snd (call init (JStr ''a'') (JStr ''b'') (JObj [(''n'', JBigInt 1)]) Accepts))) 1 =
         Some ''sa_0_1''"
proof -
  have valid: "typeof (JStr ''a'') = ''string'' \<and> truthy (JStr ''a'')
      \<and> typeof (JStr ''b'') = ''string'' \<and> truthy (JStr ''b'')
      \<and> thrown_message (RaisesValue JNull) = None
      \<and> JSON_stringify (JObj [(''n'', JBigInt 1)]) = None"
    by (simp add: thrown_message_def)
  have kept: "map_of (callbackRegistry (snd (call init (JStr ''a'') (JStr ''b'') (JObj []) (RaisesValue JNull))))
         ''sa_0_1'' = Some \<lparr>promise = 0, timestamp = 0, timeoutId = 1\<rparr>
   \<and> map_of (timers (snd (call init (JStr ''a'') (JStr ''b'') (JObj []) (RaisesValue JNull)))) 1 = None
   \<and> map_of (callbackRegistry (snd (call init (JStr ''a'') (JStr ''b'') (JObj [(''n'', JBigInt 1)]) Accepts)))
         ''sa_0_1'' = Some \<lparr>promise = 0, timestamp = 0, timeoutId = 1\<rparr>
   \<and> map_of (timers (snd (call init (JStr ''a'') (JStr ''b'') (JObj [(''n'', JBigInt 1)]) Accepts))) 1 =
         Some ''sa_0_1''"
    using call_send_raises_null_keeps_entry by simp
  from valid kept show ?thesis
    by blast
qed

lemma loaded_state:
  "loaded =
     \<lparr> paramsStore = [],
       callbackRegistry = [(''sa_0_1'', \<lparr>promise = 0, timestamp = 0, timeoutId = 1\<rparr>)],
       requestIdCounter = 2, eventListeners = [], clock = 0, timers = [(1, ''sa_0_1'')],
       nextTimeoutId = 2, promises = [Pending],
       outbox = [JObj [(''id'', JStr ''sa_0_1''), (''className'', JStr ''superAppBase''),
                       (''method'', JStr ''initialized''), (''params'', JObj [])]],
       console = [(LOG, [Txt ''[MiniApp]'', Txt ''Initializing SuperApp Bridge v0.1.0...'']),
                  (LOG, [Txt ''[MiniApp]'', Txt ''SuperApp Bridge is Ready!'']),
                  (LOG, [Txt ''[MiniApp]'', Txt ''Sending to Flutter:'',
                         Val (JObj [(''id'', JStr ''sa_0_1''), (''className'', JStr ''superAppBase''),
                                    (''method'', JStr ''initialized''), (''params'', JObj [])])])],
       delivered = [], issued = [''sa_0_1''] \<rparr>"
  by (simp add: loaded_def call_def env_defs eval_defs Let_def)






section \<open>Identifiers over a run\<close>

lemma increment_exact: "increment c < 2 ^ 53 \<Longrightarrow> c < 2 ^ 53 \<and> increment c = c + 1"
  by (simp add: increment_def split: if_splits)

lemma call_invalid_ids:
  assumes "typeof className \<noteq> ''string'' \<or> \<not> truthy className
           \<or> typeof methodName \<noteq> ''string'' \<or> \<not> truthy methodName"
  shows "issued (snd (call st className methodName params chan)) = issued st"
    and "requestIdCounter (snd (call st className methodName params chan)) = requestIdCounter st"
  using assms by (auto simp add: call_def env_defs Let_def)

lemma call_valid_ids:
  assumes "typeof className = ''string''" and "truthy className"
    and "typeof methodName = ''string''" and "truthy methodName"
  shows "issued (snd (call st className methodName params chan)) =
           issued st @ [make_id (clock st) (requestIdCounter st)]"
    and "requestIdCounter (snd (call st className methodName params chan)) =
           increment (requestIdCounter st)"
    and "outbox (snd (call st className methodName params chan)) =
           outbox st @
           (case JSON_stringify
                   (JObj [(''id'', JStr (make_id (clock st) (requestIdCounter st))),
                          (''className'', className), (''method'', methodName),
                          (''params'', if params = JUndefined then JObj [] else params)]) of
              None \<Rightarrow> []
            | Some payload \<Rightarrow> if chan = Accepts then [payload] else [])"
  using assms
  by (simp_all add: call_def env_defs Let_def split: channel.splits option.splits)

text \<open>The serialised payload carries the id it was given.\<close>

lemma payload_id:
  assumes "JSON_stringify (JObj ((''id'', JStr r) # rest)) = Some payload"
  shows "getProp payload ''id'' = JStr r"
  using assms by (auto simp add: getProp_def split: option.splits)

text \<open>Repeating a call with valid names: the counter goes up to \<open>2 ^ 53\<close> and stays.\<close>

lemma increment_funpow: "c \<le> 2 ^ 53 \<Longrightarrow> (increment ^^ n) c = min (c + n) (2 ^ 53)"
  by (induction n) (auto simp add: increment_def)

lemma run_repeat_call:
  assumes "typeof className = ''string''" and "truthy className"
    and "typeof methodName = ''string''" and "truthy methodName"
  shows "requestIdCounter (run h st (replicate n (Call className methodName params chan))) =
           (increment ^^ n) (requestIdCounter st)"
    and "clock (run h st (replicate n (Call className methodName params chan))) = clock st"
  unfolding run_def using assms
  by (induction n arbitrary: st; simp add: call_valid_ids funpow_swap1)+

lemma saturated_counter: "requestIdCounter saturated = 2 ^ 53" "clock saturated = 0"
proof -
  have "requestIdCounter saturated = (increment ^^ (2 ^ 53 - 1)) (requestIdCounter init)"
    unfolding saturated_def by (rule run_repeat_call) simp_all
  also have "\<dots> = min (requestIdCounter init + (2 ^ 53 - 1)) (2 ^ 53)"
    by (rule increment_funpow) (simp add: init_state)
  also have "\<dots> = 2 ^ 53"
    by (simp add: init_state)
  finally show "requestIdCounter saturated = 2 ^ 53" .
  have "clock saturated = clock init"
    unfolding saturated_def by (rule run_repeat_call) simp_all
  then show "clock saturated = 0"
    by (simp add: init_state)
qed

lemma ids_below_call: "ids_below st \<Longrightarrow> ids_below (snd (call st className methodName params chan))"
proof (cases "typeof className = ''string'' \<and> truthy className
              \<and> typeof methodName = ''string'' \<and> truthy methodName")
  case False
  then have "typeof className \<noteq> ''string'' \<or> \<not> truthy className
             \<or> typeof methodName \<noteq> ''string'' \<or> \<not> truthy methodName"
    by blast
  then show "ids_below st \<Longrightarrow> ?thesis"
    by (simp add: ids_below_def call_invalid_ids)
next
  case True
  assume inv: "ids_below st"
  let ?st' = "snd (call st className methodName params chan)"
  have iss: "issued ?st' = issued st @ [make_id (clock st) (requestIdCounter st)]"
    and cnt: "requestIdCounter ?st' = increment (requestIdCounter st)"
    using True by (simp_all add: call_valid_ids)
  show ?thesis
    unfolding ids_below_def
  proof (intro impI ballI)
    fix i
    assume small: "requestIdCounter ?st' < 2 ^ 53" and i: "i \<in> set (issued ?st')"
    from small cnt have c: "requestIdCounter st < 2 ^ 53"
      and c': "requestIdCounter ?st' = requestIdCounter st + 1"
      using increment_exact[of "requestIdCounter st"] by simp_all
    from i iss consider "i \<in> set (issued st)" | "i = make_id (clock st) (requestIdCounter st)"
      by auto
    then show "\<exists>t c. i = make_id t c \<and> c < requestIdCounter ?st'"
    proof cases
      case 1
      with inv c obtain t k where "i = make_id t k" and "k < requestIdCounter st"
        unfolding ids_below_def by blast
      with c' show ?thesis
        by (intro exI[of _ t] exI[of _ k]) simp
    next
      case 2
      with c' show ?thesis
        by (intro exI[of _ "clock st"] exI[of _ "requestIdCounter st"]) simp
    qed
  qed
qed

lemma ids_below_step: "ids_below st \<Longrightarrow> ids_below (step h st ev)"
  by (cases ev) (simp_all add: ids_below_call, simp_all add: ids_below_def)

lemma ids_below_run: "ids_below st \<Longrightarrow> ids_below (run h st evs)"
  unfolding run_def by (induction evs arbitrary: st) (simp_all add: ids_below_step)

lemma ids_below_init: "ids_below init"
  by (simp add: ids_below_def init_state)

lemma fresh_id:
  assumes "ids_below st" and "requestIdCounter st < 2 ^ 53"
  shows "make_id t (requestIdCounter st) \<notin> set (issued st)"
proof
  assume "make_id t (requestIdCounter st) \<in> set (issued st)"
  with assms obtain t' c where "make_id t (requestIdCounter st) = make_id t' c"
    and "c < requestIdCounter st"
    unfolding ids_below_def by blast
  then show False
    using make_id_counter by fastforce
qed

lemma show_2_53: "show_nat 9007199254740992 = ''9007199254740992''"
  by (simp add: show_nat.simps digit_char_def)

lemma make_id_2_53: "make_id 0 9007199254740992 = ''sa_0_9007199254740992''"
  by (simp add: make_id_def show_int_def show_2_53) (simp add: show_nat.simps digit_char_def)

section \<open>Claims about identifiers\<close>

text \<open>
  C4 (amended). The claim: every call with valid arguments sends exactly one outbound
  message, with an id distinct from that of every earlier call, because the counter
  is incremented on every call. Three inputs show what the code does instead. Without
  \<^verbatim>\<open>window.SuperAppChannel\<close>, the script's own call at load time sends nothing. With
  the channel in place and a BigInt among the parameters, \<^verbatim>\<open>JSON.stringify\<close> throws
  and nothing is sent. And once \<open>2 ^ 53 - 1\<close> calls have taken the counter to \<open>2 ^ 53\<close>
  (where \<^verbatim>\<open>requestIdCounter++\<close> no longer changes the double), two calls at the same
  clock reading are given the same id.
\<close>

theorem call_sends_counterexample:
  "outbox (snd (call init (JStr ''superAppBase'') (JStr ''initialized'') (JObj []) Absent)) = []
   \<and> outbox (snd (call init (JStr ''a'') (JStr ''b'') (JObj [(''n'', JBigInt 1)]) Accepts)) = []
   \<and> requestIdCounter saturated = 2 ^ 53
   \<and> issued (snd (call (snd (call saturated (JStr ''a'') (JStr ''b'') (JObj []) Accepts))
                    (JStr ''a'') (JStr ''b'') (JObj []) Accepts)) =
       issued saturated @ [''sa_0_9007199254740992'', ''sa_0_9007199254740992'']"
proof -
  let ?st1 = "snd (call saturated (JStr ''a'') (JStr ''b'') (JObj []) Accepts)"
  have a: "outbox (snd (call init (JStr ''superAppBase'') (JStr ''initialized'') (JObj []) Absent)) = []"
    and b: "outbox (snd (call init (JStr ''a'') (JStr ''b'') (JObj [(''n'', JBigInt 1)]) Accepts)) = []"
    by (simp_all add: call_valid_ids init_state)
  have top: "increment 9007199254740992 = 9007199254740992"
    by (simp add: increment_def)
  have i1: "issued ?st1 = issued saturated @ [''sa_0_9007199254740992'']"
    and c1: "requestIdCounter ?st1 = 2 ^ 53"
    by (simp_all add: call_valid_ids saturated_counter make_id_2_53 top)
  have "issued (snd (call ?st1 (JStr ''a'') (JStr ''b'') (JObj []) Accepts)) =
      issued ?st1 @ [make_id (clock ?st1) (requestIdCounter ?st1)]"
    by (rule call_valid_ids) simp_all
  then have c: "issued (snd (call ?st1 (JStr ''a'') (JStr ''b'') (JObj []) Accepts)) =
      issued saturated @ [''sa_0_9007199254740992'', ''sa_0_9007199254740992'']"
    by (simp add: i1 c1 saturated_counter make_id_2_53)
  from a b c saturated_counter(1) show ?thesis
    by blast
qed

text \<open>
  C4 as amended: the counter starts at 1, and in any state a run of the bridge has
  reached with the counter still below \<open>2 ^ 53\<close>, a call with valid arguments
  generates exactly one id, which no earlier call of the run was given, and
  increments the counter. When the payload serialises, the channel is present and
  its \<open>postMessage\<close> accepts, exactly one message goes out, and it carries that id;
  when serialising throws, the channel is absent or \<open>postMessage\<close> throws, none does.
\<close>

theorem call_sends_one_fresh_id:
  assumes "typeof className = ''string''" and "truthy className"
    and "typeof methodName = ''string''" and "truthy methodName"
    and "st = run h init evs" and "requestIdCounter st < 2 ^ 53"
  shows "requestIdCounter init = 1
    \<and> (let rid = make_id (clock st) (requestIdCounter st);
            st' = snd (call st className methodName params chan);
            text = JSON_stringify
                     (JObj [(''id'', JStr rid), (''className'', className), (''method'', methodName),
                            (''params'', if params = JUndefined then JObj [] else params)])
        in issued st' = issued st @ [rid]
           \<and> rid \<notin> set (issued st)
           \<and> requestIdCounter st' = requestIdCounter st + 1
           \<and> outbox st' = outbox st @
                (case text of
                   None \<Rightarrow> []
                 | Some payload \<Rightarrow> if chan = Accepts then [payload] else [])
           \<and> (\<forall>payload. text = Some payload \<longrightarrow> getProp payload ''id'' = JStr rid))"
proof -
  have "ids_below st"
    using assms(5) by (simp add: ids_below_run ids_below_init)
  then have "make_id (clock st) (requestIdCounter st) \<notin> set (issued st)"
    using assms(6) by (rule fresh_id)
  moreover have "increment (requestIdCounter st) = requestIdCounter st + 1"
    using assms(6) by (simp add: increment_def)
  moreover have "\<forall>payload.
      JSON_stringify
        (JObj [(''id'', JStr (make_id (clock st) (requestIdCounter st))), (''className'', className),
               (''method'', methodName),
               (''params'', if params = JUndefined then JObj [] else params)]) = Some payload \<longrightarrow>
      getProp payload ''id'' = JStr (make_id (clock st) (requestIdCounter st))"
    using payload_id by blast
  ultimately show ?thesis
    using assms(1-4)
    by (simp add: call_valid_ids Let_def init_state del: JSON_stringify.simps)
qed

theorem call_sends_one_fresh_id_witness:
  "run example_host init [Call (JStr ''superAppBase'') (JStr ''initialized'') (JObj []) Accepts] = loaded
   \<and> issued (snd (call loaded (JStr ''a'') (JStr ''b'') JUndefined Accepts)) = [''sa_0_1'', ''sa_0_2'']
   \<and> ''sa_0_2'' \<notin> set (issued loaded)
   \<and> outbox (snd (call loaded (JStr ''a'') (JStr ''b'') JUndefined Accepts)) =
       outbox loaded @ [JObj [(''id'', JStr ''sa_0_2''), (''className'', JStr ''a''),
                              (''method'', JStr ''b''), (''params'', JObj [])]]
   \<and> outbox (snd (call loaded (JStr ''a'') (JStr ''b'') JUndefined Absent)) = outbox loaded"
proof -
  have r: "run example_host init [Call (JStr ''superAppBase'') (JStr ''initialized'') (JObj []) Accepts] = loaded"
    by (simp add: run_def loaded_def)
  have c: "requestIdCounter loaded = 2" and k: "clock loaded = 0" and i: "issued loaded = [''sa_0_1'']"
    by (simp_all add: loaded_state)
  have m: "make_id 0 2 = ''sa_0_2''"
    by (simp add: eval_defs)
  show ?thesis
    using call_sends_one_fresh_id[where className = "JStr ''a''" and methodName = "JStr ''b''"
        and st = loaded and h = example_host and params = JUndefined and chan = Accepts
        and evs = "[Call (JStr ''superAppBase'') (JStr ''initialized'') (JObj []) Accepts]"]
      call_sends_one_fresh_id[where className = "JStr ''a''" and methodName = "JStr ''b''"
        and st = loaded and h = example_host and params = JUndefined and chan = Absent
        and evs = "[Call (JStr ''superAppBase'') (JStr ''initialized'') (JObj []) Accepts]"]
    unfolding r c k i m
    by (simp add: Let_def)
qed

section \<open>Listeners\<close>

lemma in_update: "(k', v') \<in> set (AList.update k v al) \<Longrightarrow> (k', v') = (k, v) \<or> (k', v') \<in> set al"
  by (induction al) (auto split: if_splits)

lemma in_delete: "x \<in> set (AList.delete k al) \<Longrightarrow> x \<in> set al"
  by (simp add: AList.delete_eq)

lemma lookup_Own: "lookup table k = Own v \<longleftrightarrow> map_of table k = Some v"
  by (simp add: lookup_def split: option.splits)

lemma lookup_no_entry: "lookup table k \<noteq> Own v \<Longrightarrow> map_of table k \<noteq> Some v"
  by (simp add: lookup_Own)

lemma lookup_Missing: "lookup table k = Missing \<Longrightarrow> map_of table k = None"
  by (simp add: lookup_def split: option.splits)

lemma lookup_update_same: "lookup (AList.update k v al) k = Own v"
  by (simp add: lookup_def AList.update_conv')

text \<open>When \<open>addListener\<close> registers, and what it registers.\<close>

lemma string_name:
  assumes "typeof eventName = ''string''"
  obtains k where "eventName = JStr k"
  using assms by (cases eventName) (simp_all split: if_splits)

lemma addListener_registers:
  assumes "k \<noteq> []" and "lookup (eventListeners st) k \<noteq> Inherited"
  shows "addListener st (JStr k) (Fn f) =
           (logger_log
              (st\<lparr>eventListeners :=
                    AList.update k (listeners_of st k @ [f]) (eventListeners st)\<rparr>)
              [Txt (''Added listener for event: '' @ k)], None)"
proof (cases "lookup (eventListeners st) k")
  case (Own cbs)
  moreover from Own have "map_of (eventListeners st) k = Some cbs"
    by (simp add: lookup_Own)
  ultimately show ?thesis
    using assms(1) by (simp add: addListener_def listeners_of_def Let_def)
next
  case Inherited
  with assms(2) show ?thesis
    by simp
next
  case Missing
  moreover from Missing have "map_of (eventListeners st) k = None"
    by (rule lookup_Missing)
  ultimately show ?thesis
    using assms(1) by (simp add: addListener_def listeners_of_def lookup_update_same Let_def)
qed

lemma addListener_throws:
  assumes "k \<noteq> []" and "lookup (eventListeners st) k = Inherited"
  shows "addListener st (JStr k) (Fn f) = (st, Some TypeError)"
  using assms by (simp add: addListener_def Let_def)

lemma addListener_rejects:
  assumes "typeof eventName \<noteq> ''string'' \<or> \<not> truthy eventName \<or> (\<exists>v. cb = NotFn v)"
  shows "eventListeners (fst (addListener st eventName cb)) = eventListeners st"
  using assms by (auto simp add: addListener_def env_defs split: callback.splits)

lemma removeListener_unprintable:
  "toStr eventName = None \<Longrightarrow> removeListener st eventName cb = (st, Some TypeError)"
  by (simp add: removeListener_def)

lemma removeListener_Own:
  assumes "toStr eventName = Some k" and "map_of (eventListeners st) k = Some cbs"
  shows "eventListeners (fst (removeListener st eventName cb)) =
           (if filter (\<lambda>c. Fn c \<noteq> cb) cbs = []
            then AList.delete k (eventListeners st)
            else AList.update k (filter (\<lambda>c. Fn c \<noteq> cb) cbs) (eventListeners st))"
  using assms
  by (simp add: removeListener_def lookup_def env_defs Let_def AList.delete_update_same)

lemma removeListener_no_entry:
  assumes "toStr eventName = Some k" and "map_of (eventListeners st) k = None"
  shows "fst (removeListener st eventName cb) = st"
  using assms by (simp add: removeListener_def lookup_def Let_def)

lemma listeners_of_removeListener:
  assumes "toStr eventName = Some k"
  shows "listeners_of (fst (removeListener st eventName cb)) =
     (listeners_of st) (k := filter (\<lambda>c. Fn c \<noteq> cb) (listeners_of st k))"
proof (cases "map_of (eventListeners st) k")
  case None
  with assms show ?thesis
    by (auto simp add: removeListener_no_entry listeners_of_def)
next
  case (Some cbs)
  with assms show ?thesis
    by (auto simp add: removeListener_Own listeners_of_def fun_eq_iff AList.delete_conv'
        AList.update_conv')
qed

lemma removeListener_drops_empty:
  assumes "toStr eventName = Some k"
    and "filter (\<lambda>c. Fn c \<noteq> cb) (listeners_of st k) = []"
  shows "k \<notin> set (getRegisteredEvents (fst (removeListener st eventName cb)))"
proof (cases "map_of (eventListeners st) k")
  case None
  with assms(1) show ?thesis
    by (simp add: removeListener_no_entry getRegisteredEvents_def map_of_eq_None_iff)
next
  case (Some cbs)
  with assms show ?thesis
    by (simp add: removeListener_Own listeners_of_def getRegisteredEvents_def AList.delete_notin_dom)
qed

lemma subscribers_ok_update:
  assumes "subscribers_ok st" and "cbs \<noteq> []"
  shows "subscribers_ok (st\<lparr>eventListeners := AList.update k cbs (eventListeners st)\<rparr>)"
  using assms by (auto simp add: subscribers_ok_def AList.distinct_update dest: in_update)

lemma subscribers_ok_delete:
  assumes "subscribers_ok st"
  shows "subscribers_ok (st\<lparr>eventListeners := AList.delete k (eventListeners st)\<rparr>)"
  using assms by (auto simp add: subscribers_ok_def AList.distinct_delete dest: in_delete)

lemma subscribers_ok_cong:
  "eventListeners st' = eventListeners st \<Longrightarrow> subscribers_ok st \<Longrightarrow> subscribers_ok st'"
  by (simp add: subscribers_ok_def)

lemma subscribers_ok_addListener:
  assumes "subscribers_ok st"
  shows "subscribers_ok (fst (addListener st eventName cb))"
proof (cases "typeof eventName = ''string'' \<and> truthy eventName \<and> (\<exists>f. cb = Fn f)")
  case False
  then have "typeof eventName \<noteq> ''string'' \<or> \<not> truthy eventName \<or> (\<exists>v. cb = NotFn v)"
    by (cases cb) auto
  then have "eventListeners (fst (addListener st eventName cb)) = eventListeners st"
    by (rule addListener_rejects)
  then show ?thesis
    using assms by (rule subscribers_ok_cong)
next
  case True
  then obtain f where cb: "cb = Fn f" and ok: "typeof eventName = ''string''" "truthy eventName"
    by blast
  from ok(1) obtain k where name: "eventName = JStr k"
    by (rule string_name)
  with ok(2) have k: "k \<noteq> []"
    by simp
  show ?thesis
  proof (cases "lookup (eventListeners st) k = Inherited")
    case True
    have "fst (addListener st (JStr k) (Fn f)) = st"
      using k True by (simp add: addListener_throws)
    then show ?thesis
      using assms by (simp add: cb name)
  next
    case False
    let ?st' = "st\<lparr>eventListeners :=
            AList.update k (listeners_of st k @ [f]) (eventListeners st)\<rparr>"
    have "subscribers_ok ?st'"
      using assms by (rule subscribers_ok_update) simp
    moreover have "eventListeners (fst (addListener st (JStr k) (Fn f))) = eventListeners ?st'"
      using k False by (simp add: addListener_registers env_defs)
    ultimately show ?thesis
      unfolding cb name by (rule subscribers_ok_cong[rotated])
  qed
qed

lemma subscribers_ok_removeListener:
  assumes "subscribers_ok st"
  shows "subscribers_ok (fst (removeListener st eventName cb))"
proof (cases "toStr eventName")
  case None
  with assms show ?thesis
    by (simp add: removeListener_unprintable)
next
  case name: (Some k)
  show ?thesis
  proof (cases "map_of (eventListeners st) k")
    case None
    with assms name show ?thesis
      by (simp add: removeListener_no_entry)
  next
    case (Some cbs)
    show ?thesis
    proof (cases "filter (\<lambda>c. Fn c \<noteq> cb) cbs = []")
      case True
      have "subscribers_ok (st\<lparr>eventListeners := AList.delete k (eventListeners st)\<rparr>)"
        using assms by (rule subscribers_ok_delete)
      then show ?thesis
        using name Some True by (simp add: subscribers_ok_def removeListener_Own)
    next
      case False
      with assms have "subscribers_ok (st\<lparr>eventListeners :=
          AList.update k (filter (\<lambda>c. Fn c \<noteq> cb) cbs) (eventListeners st)\<rparr>)"
        by (rule subscribers_ok_update)
      then show ?thesis
        using name Some False by (simp add: subscribers_ok_def removeListener_Own)
    qed
  qed
qed

lemma subscribers_ok_step: "subscribers_ok st \<Longrightarrow> subscribers_ok (step h st ev)"
  by (cases ev)
     (simp_all add: subscribers_ok_addListener subscribers_ok_removeListener,
      simp_all add: subscribers_ok_def)

lemma subscribers_ok_run: "subscribers_ok st \<Longrightarrow> subscribers_ok (run h st evs)"
  unfolding run_def by (induction evs arbitrary: st) (simp_all add: subscribers_ok_step)

lemma subscribers_ok_init: "subscribers_ok init"
  by (simp add: subscribers_ok_def init_state)

lemma registered_events:
  assumes "subscribers_ok st"
  shows "distinct (getRegisteredEvents st)"
    and "set (getRegisteredEvents st) = {name. listeners_of st name \<noteq> []}"
proof -
  show "distinct (getRegisteredEvents st)"
    using assms by (simp add: subscribers_ok_def getRegisteredEvents_def)
  show "set (getRegisteredEvents st) = {name. listeners_of st name \<noteq> []}"
  proof (intro set_eqI iffI)
    fix name
    assume "name \<in> set (getRegisteredEvents st)"
    then obtain cbs where "map_of (eventListeners st) name = Some cbs"
      by (auto simp add: getRegisteredEvents_def dest: weak_map_of_SomeI)
    moreover from this have "(name, cbs) \<in> set (eventListeners st)"
      by (rule map_of_SomeD)
    ultimately show "name \<in> {name. listeners_of st name \<noteq> []}"
      using assms by (auto simp add: subscribers_ok_def listeners_of_def)
  next
    fix name
    assume "name \<in> {name. listeners_of st name \<noteq> []}"
    then have "map_of (eventListeners st) name \<noteq> None"
      by (auto simp add: listeners_of_def split: option.splits)
    then show "name \<in> set (getRegisteredEvents st)"
      by (simp add: getRegisteredEvents_def map_of_eq_None_iff)
  qed
qed

lemma listeners_of_addListener:
  assumes "k \<noteq> []" and "lookup (eventListeners st) k \<noteq> Inherited"
  shows "listeners_of (fst (addListener st (JStr k) (Fn f))) =
           (listeners_of st)(k := listeners_of st k @ [f])"
  using assms
  by (auto simp add: addListener_registers listeners_of_def env_defs fun_eq_iff AList.update_conv')

section \<open>Dispatching\<close>


lemma dispatchEvent_unprintable:
  "toStr eventName = None \<Longrightarrow> dispatchEvent h st eventName data = (st, Some TypeError)"
  by (simp add: dispatchEvent_def)





section \<open>Claims about events\<close>

text \<open>
  C6 (the code departs from the claim). The claim: for every event name,
  \<open>dispatchEvent\<close> invokes the registered listeners in order, isolates what they
  throw, and is a no-op for a name with no subscriber set. For names that are not
  members of \<^verbatim>\<open>Object.prototype\<close> this is \<open>dispatchEvent_isolates\<close>. For a member name
  the guard \<^verbatim>\<open>if (!eventListeners[eventName])\<close> finds the inherited member, and
  \<^verbatim>\<open>forEach\<close> on it throws: on the fresh bridge, which has no listener at all,
  dispatching \<^verbatim>\<open>"toString"\<close> throws a \<^verbatim>\<open>TypeError\<close> to the caller.
\<close>

theorem dispatch_inherited_name_throws:
  "map_of (eventListeners init) ''toString'' = None
   \<and> dispatchEvent h init (JStr ''toString'') JNull =
       (init\<lparr>console := console init @
               [(LOG, [Txt ''[MiniApp]'',
                       Txt (''Dispatching event '' @ [CHR 0x27] @ ''toString'' @ [CHR 0x27] @ '' with data:''),
                       Val JNull])]\<rparr>,
        Some TypeError)"
  by (simp add: dispatchEvent_def env_defs eval_defs Let_def)

text \<open>
  The subscriber table keeps each event name at most once and never with an empty
  list, so its keys, which \<open>getRegisteredEvents\<close> returns, are exactly the names with at
  least one listener. This holds when the script starts, every operation of the
  bridge preserves it, and so it holds after every run.
\<close>

lemma subscribers_ok_always:
  "subscribers_ok (run h init evs)"
  using subscribers_ok_init by (rule subscribers_ok_run)

lemma registered_events_always:
  "distinct (getRegisteredEvents (run h init evs))
   \<and> set (getRegisteredEvents (run h init evs)) = {name. listeners_of (run h init evs) name \<noteq> []}"
  using registered_events[OF subscribers_ok_always] by blast

text \<open>
  C7 (the code departs from the claim). The claim: the keys of the subscriber table
  are always exactly the event names with at least one listener, \<open>addListener\<close>
  creates a list on first registration for a name, and \<open>removeListener\<close> removes
  every entry equal to the callback and deletes the entry once its list is empty.
  The invariant holds (\<open>registered_events_always\<close>), and for the names that are not
  members of \<^verbatim>\<open>Object.prototype\<close> so do the two descriptions
  (\<open>listeners_of_addListener\<close>, \<open>listeners_of_removeListener\<close>,
  \<open>removeListener_drops_empty\<close>). For a member name the guard
  \<^verbatim>\<open>if (!eventListeners[eventName])\<close> of \<open>addListener\<close> finds the inherited member and
  creates no list, and \<^verbatim>\<open>push\<close> on it throws: on the fresh bridge, the first
  registration of a function for \<^verbatim>\<open>"toString"\<close> throws a \<^verbatim>\<open>TypeError\<close> to the caller,
  changes nothing, and the name is not among the registered events afterwards,
  although it is a non-empty string and the callback is a function; nor does
  \<open>removeListener\<close> for that name return.
\<close>

theorem addListener_inherited_name_creates_no_list:
  "typeof (JStr ''toString'') = ''string'' \<and> truthy (JStr ''toString'')
   \<and> addListener init (JStr ''toString'') (Fn 7) = (init, Some TypeError)
   \<and> listeners_of (fst (addListener init (JStr ''toString'') (Fn 7))) ''toString'' = []
   \<and> ''toString'' \<notin> set (getRegisteredEvents (fst (addListener init (JStr ''toString'') (Fn 7))))
   \<and> removeListener init (JStr ''toString'') (Fn 7) = (init, Some TypeError)"
  by (simp add: addListener_def removeListener_def getRegisteredEvents_def listeners_of_def
      env_defs eval_defs Let_def)

theorem addListener_inherited_name_creates_no_list_witness:
  "lookup (eventListeners init) ''toString'' = Inherited
   \<and> fst (addListener init (JStr ''toString'') (Fn 7)) = init
   \<and> snd (addListener init (JStr ''toString'') (Fn 7)) = Some TypeError
   \<and> getRegisteredEvents (fst (addListener init (JStr ''toString'') (Fn 7))) = []"
proof -
  have inherited: "lookup (eventListeners init) ''toString'' = Inherited"
    and none: "getRegisteredEvents init = []"
    by (simp_all add: getRegisteredEvents_def eval_defs)
  have thrown: "fst (addListener init (JStr ''toString'') (Fn 7)) = init
      \<and> snd (addListener init (JStr ''toString'') (Fn 7)) = Some TypeError"
    using addListener_inherited_name_creates_no_list by simp
  from inherited thrown none show ?thesis
    by simp
qed

section \<open>Claims about inbound messages\<close>

lemma safeParseJSON_value: "fst (safeParseJSON h st response) = fst (safeParseJSON h st' response)"
  by (simp add: safeParseJSON_def split: jsval.splits sum.splits)

lemma safeParseJSON_truthy:
  assumes "truthy (fst (safeParseJSON h st response))"
  shows "snd (safeParseJSON h st response) = st"
  using assms by (auto simp add: safeParseJSON_def split: jsval.splits sum.splits)

lemma safeParseJSON_console:
  "snd (safeParseJSON h st response) = st\<lparr>console := console (snd (safeParseJSON h st response))\<rparr>"
  by (simp add: safeParseJSON_def env_defs split: jsval.splits sum.splits)

lemma catch_and_log_normal [simp]: "catch_and_log (st, None) = (st, None)"
  by (simp add: catch_and_log_def)

lemma typeof_boolean: "typeof v = ''boolean'' \<longleftrightarrow> (\<exists>b. v = JBool b)"
  by (cases v) simp_all

text \<open>
  C2 (amended). The claim routes on the presence of the fields and falls back to
  the default error only for a missing error (\<^verbatim>\<open>??\<close>), as
  \<open>receiveMessage_as_specified\<close> does; the code tests \<^verbatim>\<open>res.event\<close> and \<^verbatim>\<open>res.id\<close> for
  truthiness and writes \<^verbatim>\<open>res.error || ...\<close>. On the loaded bridge, whose request
  \<^verbatim>\<open>sa_0_1\<close> is pending: a message with an empty \<^verbatim>\<open>event\<close> and the fields of a
  successful response carries an event field, and the code nevertheless resolves the
  request; a failure response with the error \<^verbatim>\<open>0\<close> is rejected with the default
  error, not with \<^verbatim>\<open>0\<close>.
\<close>

theorem receiveMessage_routing_counterexample:
  "promises (fst (receiveMessage example_host loaded
       (JObj [(''event'', JStr []), (''id'', JStr ''sa_0_1''), (''success'', JBool True),
              (''data'', JNum 1)]))) = [Fulfilled (JNum 1)]
   \<and> promises (fst (receiveMessage_as_specified example_host loaded
       (JObj [(''event'', JStr []), (''id'', JStr ''sa_0_1''), (''success'', JBool True),
              (''data'', JNum 1)]))) = [Pending]
   \<and> promises (fst (receiveMessage example_host loaded
       (JObj [(''id'', JStr ''sa_0_1''), (''success'', JBool False), (''error'', JNum 0)]))) =
       [Rejected (Value (JObj [(''error'', JStr ''Unknown error'')]))]
   \<and> promises (fst (receiveMessage_as_specified example_host loaded
       (JObj [(''id'', JStr ''sa_0_1''), (''success'', JBool False), (''error'', JNum 0)]))) =
       [Rejected (Value (JNum 0))]"
  by (simp add: receiveMessage_def receiveMessage_try_def receiveMessage_as_specified_def
      catch_and_log_def safeParseJSON_def getProp_def carries_def nullish_or_def
      handleSuccess_def handleFailure_def dispatchEvent_def lookup_def object_prototype_keys_def
      env_defs loaded_state Let_def)

text \<open>
  C2 as amended: \<open>receiveMessage\<close> classifies every parsed inbound message that is
  truthy into exactly one case. If its \<open>event\<close> field is truthy it forwards
  (event, data) to the dispatcher and stops, never touching the correlator (the
  registry, the timers and the promises are as before). Otherwise, if its \<open>id\<close> field is
  truthy and its \<open>success\<close> field is a boolean, it calls \<open>handleSuccess\<close> (id, data)
  when success is true and \<open>handleFailure\<close> (id, error || {error: 'Unknown error'})
  when success is false. Any other message is ignored: only the debug line that
  records its arrival is written. In each case an exception of the callee is caught
  and logged.
\<close>

theorem receiveMessage_routes:
  assumes "res = fst (safeParseJSON h st response)" and "truthy res"
    and "st1 = logger_log st [Txt ''Received from Flutter:'', Val response]"
  shows
    "(truthy (getProp res ''event'') \<longrightarrow>
        receiveMessage h st response =
          catch_and_log (dispatchEvent h st1 (getProp res ''event'') (getProp res ''data''))
        \<and> callbackRegistry (fst (receiveMessage h st response)) = callbackRegistry st
        \<and> timers (fst (receiveMessage h st response)) = timers st
        \<and> promises (fst (receiveMessage h st response)) = promises st)
     \<and> (\<not> truthy (getProp res ''event'') \<and> truthy (getProp res ''id'')
          \<and> getProp res ''success'' = JBool True \<longrightarrow>
        receiveMessage h st response =
          catch_and_log (handleSuccess st1 (getProp res ''id'') (getProp res ''data'')))
     \<and> (\<not> truthy (getProp res ''event'') \<and> truthy (getProp res ''id'')
          \<and> getProp res ''success'' = JBool False \<longrightarrow>
        receiveMessage h st response =
          catch_and_log (handleFailure st1 (getProp res ''id'')
            (if truthy (getProp res ''error'') then getProp res ''error''
             else JObj [(''error'', JStr ''Unknown error'')])))
     \<and> (\<not> truthy (getProp res ''event'')
          \<and> (\<not> truthy (getProp res ''id'') \<or> typeof (getProp res ''success'') \<noteq> ''boolean'') \<longrightarrow>
        receiveMessage h st response = (st1, None))"
proof -
  have v: "fst (safeParseJSON h st1 response) = res"
    using assms(1) safeParseJSON_value[of h st1 response st] by simp
  with assms(2) have s: "snd (safeParseJSON h st1 response) = st1"
    using safeParseJSON_truthy[of h st1 response] by simp
  have parse: "safeParseJSON h st1 response = (res, st1)"
    using v s by (metis prod.collapse)
  have body: "receiveMessage_try h st response =
      (if truthy (getProp res ''event'')
       then dispatchEvent h st1 (getProp res ''event'') (getProp res ''data'')
       else if truthy (getProp res ''id'') \<and> typeof (getProp res ''success'') = ''boolean''
       then (if truthy (getProp res ''success'')
             then handleSuccess st1 (getProp res ''id'') (getProp res ''data'')
             else handleFailure st1 (getProp res ''id'')
                    (if truthy (getProp res ''error'') then getProp res ''error''
                     else JObj [(''error'', JStr ''Unknown error'')]))
       else (st1, None))"
    using assms(2) parse unfolding receiveMessage_try_def assms(3)[symmetric] Let_def
    by simp
  have frame: "callbackRegistry st1 = callbackRegistry st" "timers st1 = timers st"
    "promises st1 = promises st"
    by (simp_all add: assms(3) env_defs)
  show ?thesis
    unfolding receiveMessage_def body
    by (auto simp add: frame)
qed

theorem receiveMessage_routes_witness:
  "promises (fst (receiveMessage example_host loaded
       (JObj [(''event'', JStr ''ready''), (''id'', JStr ''sa_0_1''), (''success'', JBool True)]))) =
     promises loaded
   \<and> receiveMessage example_host loaded
         (JObj [(''id'', JStr ''sa_0_1''), (''success'', JBool True), (''data'', JNum 5)]) =
       catch_and_log
         (handleSuccess
            (logger_log loaded
               [Txt ''Received from Flutter:'',
                Val (JObj [(''id'', JStr ''sa_0_1''), (''success'', JBool True), (''data'', JNum 5)])])
            (JStr ''sa_0_1'') (JNum 5))
   \<and> receiveMessage example_host loaded
         (JObj [(''id'', JStr ''sa_0_1''), (''success'', JBool False)]) =
       catch_and_log
         (handleFailure
            (logger_log loaded
               [Txt ''Received from Flutter:'',
                Val (JObj [(''id'', JStr ''sa_0_1''), (''success'', JBool False)])])
            (JStr ''sa_0_1'') (JObj [(''error'', JStr ''Unknown error'')]))
   \<and> receiveMessage example_host loaded (JObj [(''id'', JStr ''sa_0_1'')]) =
       (logger_log loaded [Txt ''Received from Flutter:'', Val (JObj [(''id'', JStr ''sa_0_1'')])], None)"
proof -
  let ?m1 = "JObj [(''event'', JStr ''ready''), (''id'', JStr ''sa_0_1''), (''success'', JBool True)]"
  let ?m2 = "JObj [(''id'', JStr ''sa_0_1''), (''success'', JBool True), (''data'', JNum 5)]"
  let ?m3 = "JObj [(''id'', JStr ''sa_0_1''), (''success'', JBool False)]"
  let ?m4 = "JObj [(''id'', JStr ''sa_0_1'')]"
  have p: "fst (safeParseJSON example_host loaded (JObj kvs)) = JObj kvs" for kvs
    by (simp add: safeParseJSON_def)
  have a: "promises (fst (receiveMessage example_host loaded ?m1)) = promises loaded"
    using receiveMessage_routes[where h = example_host and st = loaded and response = ?m1
        and res = ?m1, OF p[symmetric] _ refl]
    by (simp add: getProp_def env_defs)
  have b: "receiveMessage example_host loaded ?m2 =
       catch_and_log (handleSuccess (logger_log loaded [Txt ''Received from Flutter:'', Val ?m2])
                        (JStr ''sa_0_1'') (JNum 5))"
    using receiveMessage_routes[where h = example_host and st = loaded and response = ?m2
        and res = ?m2, OF p[symmetric] _ refl]
    by (simp add: getProp_def)
  have c: "receiveMessage example_host loaded ?m3 =
       catch_and_log (handleFailure (logger_log loaded [Txt ''Received from Flutter:'', Val ?m3])
                        (JStr ''sa_0_1'') (JObj [(''error'', JStr ''Unknown error'')]))"
    using receiveMessage_routes[where h = example_host and st = loaded and response = ?m3
        and res = ?m3, OF p[symmetric] _ refl]
    by (simp add: getProp_def)
  have d: "receiveMessage example_host loaded ?m4 =
       (logger_log loaded [Txt ''Received from Flutter:'', Val ?m4], None)"
    using receiveMessage_routes[where h = example_host and st = loaded and response = ?m4
        and res = ?m4, OF p[symmetric] _ refl]
    by (simp add: getProp_def)
  from a b c d show ?thesis
    by blast
qed

text \<open>
  C9. \<open>receiveMessage\<close> never throws to its caller, whatever it is given. For a string
  that \<^verbatim>\<open>JSON.parse\<close> rejects (such as \<^verbatim>\<open>not json\<close>) it writes the debug line for the
  arrival and the error line \<^verbatim>\<open>Invalid JSON:\<close> with the text and the exception, and
  changes nothing else: the pending requests, the subscriber table and the params
  store are as before.
\<close>

theorem receiveMessage_never_throws:
  "snd (receiveMessage h st response) = None
   \<and> (JSON_parse h s = Inl e \<longrightarrow>
        receiveMessage h st (JStr s) =
          (st\<lparr>console := console st @
                 [(LOG, [Txt ''[MiniApp]'', Txt ''Received from Flutter:'', Val (JStr s)]),
                  (ERROR, [Txt ''[MiniApp]'', Txt ''Invalid JSON:'', Val (JStr s), Exn e])]\<rparr>,
           None))"
  by (simp add: receiveMessage_def)
     (simp add: receiveMessage_try_def safeParseJSON_def env_defs)

theorem receiveMessage_never_throws_witness:
  "snd (receiveMessage example_host loaded (JStr ''not json'')) = None
   \<and> receiveMessage example_host loaded (JStr ''not json'') =
       (loaded\<lparr>console := console loaded @
                 [(LOG, [Txt ''[MiniApp]'', Txt ''Received from Flutter:'', Val (JStr ''not json'')]),
                  (ERROR, [Txt ''[MiniApp]'', Txt ''Invalid JSON:'', Val (JStr ''not json''),
                           Exn SyntaxError])]\<rparr>,
        None)"
proof -
  have "JSON_parse example_host ''not json'' = Inl SyntaxError"
    by (simp add: example_host_def literal_parse_def)
  then show ?thesis
    using receiveMessage_never_throws[where h = example_host and st = loaded
        and response = "JStr ''not json''" and s = "''not json''" and e = SyntaxError]
    by simp
qed

text \<open>
  C10. When the parsed value of the argument is falsy, \<open>receiveMessage\<close> returns at
  once: the dispatcher and the correlator are not invoked, and nothing but the
  console changes. So a string whose JSON value is falsy (the texts \<^verbatim>\<open>0\<close>,
  \<^verbatim>\<open>false\<close>, \<^verbatim>\<open>null\<close> and \<^verbatim>\<open>""\<close>) and a falsy argument that is not a string (such as
  \<^verbatim>\<open>null\<close> or \<^verbatim>\<open>0\<close>) only leave the debug line for the arrival, and are dropped as
  malformed JSON is, which leaves its error line as well.
\<close>

theorem falsy_message_dropped:
  "(\<not> truthy (fst (safeParseJSON h st response)) \<longrightarrow>
      receiveMessage h st response =
        (snd (safeParseJSON h (logger_log st [Txt ''Received from Flutter:'', Val response]) response),
         None)
      \<and> fst (receiveMessage h st response) =
          st\<lparr>console := console (fst (receiveMessage h st response))\<rparr>)
   \<and> (JSON_parse h s = Inr v \<and> \<not> truthy v \<longrightarrow>
        receiveMessage h st (JStr s) =
          (st\<lparr>console := console st @
                 [(LOG, [Txt ''[MiniApp]'', Txt ''Received from Flutter:'', Val (JStr s)])]\<rparr>, None))
   \<and> (typeof response \<noteq> ''string'' \<and> \<not> truthy response \<longrightarrow>
        receiveMessage h st response =
          (st\<lparr>console := console st @
                 [(LOG, [Txt ''[MiniApp]'', Txt ''Received from Flutter:'', Val response])]\<rparr>, None))"
proof -
  let ?st1 = "logger_log st [Txt ''Received from Flutter:'', Val response]"
  have general: "receiveMessage h st response = (snd (safeParseJSON h ?st1 response), None)
      \<and> fst (receiveMessage h st response) =
          st\<lparr>console := console (fst (receiveMessage h st response))\<rparr>"
    if "\<not> truthy (fst (safeParseJSON h st response))"
  proof -
    from that have "\<not> truthy (fst (safeParseJSON h ?st1 response))"
      using safeParseJSON_value[of h st response ?st1] by simp
    then have r: "receiveMessage h st response = (snd (safeParseJSON h ?st1 response), None)"
      by (simp add: receiveMessage_def receiveMessage_try_def Let_def split_beta)
    have "snd (safeParseJSON h ?st1 response) =
        st\<lparr>console := console (snd (safeParseJSON h ?st1 response))\<rparr>"
      by (simp add: safeParseJSON_def env_defs split: jsval.splits sum.splits)
    with r show ?thesis
      by simp
  qed
  have parsed: "receiveMessage h st (JStr s) =
          (st\<lparr>console := console st @
                 [(LOG, [Txt ''[MiniApp]'', Txt ''Received from Flutter:'', Val (JStr s)])]\<rparr>, None)"
    if "JSON_parse h s = Inr v" "\<not> truthy v"
    using that
    by (simp add: receiveMessage_def receiveMessage_try_def safeParseJSON_def env_defs)
  have other: "receiveMessage h st response =
          (st\<lparr>console := console st @
                 [(LOG, [Txt ''[MiniApp]'', Txt ''Received from Flutter:'', Val response])]\<rparr>, None)"
    if "typeof response \<noteq> ''string''" "\<not> truthy response"
    using that
    by (cases response)
       (simp_all add: receiveMessage_def receiveMessage_try_def safeParseJSON_def env_defs)
  from general parsed other show ?thesis
    by blast
qed

theorem falsy_message_dropped_witness:
  "receiveMessage example_host loaded (JStr ''0'') =
     (loaded\<lparr>console := console loaded @
        [(LOG, [Txt ''[MiniApp]'', Txt ''Received from Flutter:'', Val (JStr ''0'')])]\<rparr>, None)
   \<and> receiveMessage example_host loaded (JStr ''false'') =
     (loaded\<lparr>console := console loaded @
        [(LOG, [Txt ''[MiniApp]'', Txt ''Received from Flutter:'', Val (JStr ''false'')])]\<rparr>, None)
   \<and> receiveMessage example_host loaded (JStr ''null'') =
     (loaded\<lparr>console := console loaded @
        [(LOG, [Txt ''[MiniApp]'', Txt ''Received from Flutter:'', Val (JStr ''null'')])]\<rparr>, None)
   \<and> receiveMessage example_host loaded (JStr [CHR 0x22, CHR 0x22]) =
     (loaded\<lparr>console := console loaded @
        [(LOG, [Txt ''[MiniApp]'', Txt ''Received from Flutter:'', Val (JStr [CHR 0x22, CHR 0x22])])]\<rparr>,
      None)
   \<and> receiveMessage example_host loaded JNull =
     (loaded\<lparr>console := console loaded @
        [(LOG, [Txt ''[MiniApp]'', Txt ''Received from Flutter:'', Val JNull])]\<rparr>, None)
   \<and> receiveMessage example_host loaded (JNum 0) =
     (loaded\<lparr>console := console loaded @
        [(LOG, [Txt ''[MiniApp]'', Txt ''Received from Flutter:'', Val (JNum 0)])]\<rparr>, None)
   \<and> fst (receiveMessage example_host loaded (JStr ''not json'')) =
     loaded\<lparr>console := console (fst (receiveMessage example_host loaded (JStr ''not json'')))\<rparr>"
proof -
  have parses: "JSON_parse example_host ''0'' = Inr (JNum 0)"
    "JSON_parse example_host ''false'' = Inr (JBool False)"
    "JSON_parse example_host ''null'' = Inr JNull"
    "JSON_parse example_host [CHR 0x22, CHR 0x22] = Inr (JStr [])"
    "JSON_parse example_host ''not json'' = Inl SyntaxError"
    by (simp_all add: example_host_def literal_parse_def)
  have malformed: "\<not> truthy (fst (safeParseJSON example_host loaded (JStr ''not json'')))"
    by (simp add: safeParseJSON_def parses)
  note T = falsy_message_dropped[where h = example_host and st = loaded]
  have a: "receiveMessage example_host loaded (JStr ''0'') =
     (loaded\<lparr>console := console loaded @
        [(LOG, [Txt ''[MiniApp]'', Txt ''Received from Flutter:'', Val (JStr ''0'')])]\<rparr>, None)"
    using T[where s = "''0''" and v = "JNum 0" and response = JNull] parses by simp
  have b: "receiveMessage example_host loaded (JStr ''false'') =
     (loaded\<lparr>console := console loaded @
        [(LOG, [Txt ''[MiniApp]'', Txt ''Received from Flutter:'', Val (JStr ''false'')])]\<rparr>, None)"
    using T[where s = "''false''" and v = "JBool False" and response = JNull] parses by simp
  have c: "receiveMessage example_host loaded (JStr ''null'') =
     (loaded\<lparr>console := console loaded @
        [(LOG, [Txt ''[MiniApp]'', Txt ''Received from Flutter:'', Val (JStr ''null'')])]\<rparr>, None)"
    using T[where s = "''null''" and v = JNull and response = JNull] parses by simp
  have d: "receiveMessage example_host loaded (JStr [CHR 0x22, CHR 0x22]) =
     (loaded\<lparr>console := console loaded @
        [(LOG, [Txt ''[MiniApp]'', Txt ''Received from Flutter:'', Val (JStr [CHR 0x22, CHR 0x22])])]\<rparr>,
      None)"
    using T[where s = "[CHR 0x22, CHR 0x22]" and v = "JStr []" and response = JNull] parses by simp
  have e: "receiveMessage example_host loaded JNull =
     (loaded\<lparr>console := console loaded @
        [(LOG, [Txt ''[MiniApp]'', Txt ''Received from Flutter:'', Val JNull])]\<rparr>, None)"
    using T[where s = "''0''" and v = "JNum 0" and response = JNull] by simp
  have f: "receiveMessage example_host loaded (JNum 0) =
     (loaded\<lparr>console := console loaded @
        [(LOG, [Txt ''[MiniApp]'', Txt ''Received from Flutter:'', Val (JNum 0)])]\<rparr>, None)"
    using T[where s = "''0''" and v = "JNum 0" and response = "JNum 0"] by simp
  have g: "fst (receiveMessage example_host loaded (JStr ''not json'')) =
     loaded\<lparr>console := console (fst (receiveMessage example_host loaded (JStr ''not json'')))\<rparr>"
    using T[where s = "''0''" and v = "JNum 0" and response = "JStr ''not json''"] malformed by blast
  from a b c d e f g show ?thesis
    by blast
qed

section \<open>Claims about the params store\<close>






text \<open>
  A key that is an object with an own property \<^verbatim>\<open>toString\<close> that is no function has
  no property name: \<^verbatim>\<open>paramsStore[key]\<close> throws.
\<close>

lemma getParams_object_key_throws:
  "getParams init (JObj [(''toString'', JNum 1)]) = Fails TypeError"
  by (simp add: getParams_def)




end
